theory Spec2Isabelle
  imports Complex_Main
begin

section \<open>The tensor library, as far as model/WGAN.py uses it\<close>

text \<open>
  model/WGAN.py builds its two networks from the layer classes of torch.nn. Those classes
  are not part of the repository; they are modelled here after the library's documented
  behaviour: the output-size formulae of \<^verbatim>\<open>Conv2d\<close> and \<^verbatim>\<open>ConvTranspose2d\<close>
  (dilation 1, no output padding, no bias), the batch statistics and the running buffers of
  \<^verbatim>\<open>BatchNorm2d\<close> (eps 1e-5, momentum 0.1, affine, tracking running statistics), and
  the element-wise activations. A convolution raises on an input without channels or
  without pixels, and on a layer constructed with no output channels. Numbers are real
  numbers: rounding, infinities and NaN of floating point are not modelled, so every
  statement about values below is one about exact real arithmetic on finite values. A
  tensor is its shape together with a function from multi-indices to values; only the
  values at indices inside the shape are meaningful.
\<close>

record tensor =
  shape :: "nat list"
  elems :: "nat list \<Rightarrow> real"

text \<open>Exceptions, as values. All but the first are raised by the tensor library.\<close>

datatype error =
    ZeroDivisionError
  | BadRank
  | EmptyInput
  | ChannelMismatch
  | BadStride
  | BadKernel
  | EmptyOutput
  | KernelTooLarge
  | OutputTooSmall
  | OneValuePerChannel
  | ViewSize

definition bind :: "error + 'a \<Rightarrow> ('a \<Rightarrow> error + 'b) \<Rightarrow> error + 'b" where
  "bind r f = (case r of Inl e \<Rightarrow> Inl e | Inr v \<Rightarrow> f v)"

type_synonym kernel = "nat \<Rightarrow> nat \<Rightarrow> nat \<Rightarrow> nat \<Rightarrow> real"

text \<open>
  The learned parameters (\<open>bn_weight\<close>, \<open>bn_bias\<close>) and the buffers of a
  \<^verbatim>\<open>BatchNorm2d\<close> layer, one entry per channel, and its batch counter.
\<close>

record bn_params =
  bn_weight :: "nat \<Rightarrow> real"
  bn_bias :: "nat \<Rightarrow> real"
  running_mean :: "nat \<Rightarrow> real"
  running_var :: "nat \<Rightarrow> real"
  num_batches_tracked :: nat

text \<open>What \<^verbatim>\<open>nn.BatchNorm2d(n)\<close> holds right after construction.\<close>

definition bn_fresh :: bn_params where
  "bn_fresh = \<lparr>bn_weight = (\<lambda>c. 1), bn_bias = (\<lambda>c. 0), running_mean = (\<lambda>c. 0),
     running_var = (\<lambda>c. 1), num_batches_tracked = 0\<rparr>"

text \<open>
  The layer objects. \<open>Conv2d n_in n_out ks stride pad w\<close> and
  \<open>ConvTranspose2d n_in n_out ks stride pad w\<close> carry their hyper-parameters in the
  order of the source's positional arguments, and their weight \<open>w\<close>.
\<close>

datatype layer =
    Conv2d nat nat nat nat nat kernel
  | ConvTranspose2d nat nat nat nat nat kernel
  | BatchNorm2d nat bn_params
  | ReLU
  | LeakyReLU real
  | Tanh

subsection \<open>Output sizes\<close>

definition conv_out :: "nat \<Rightarrow> nat \<Rightarrow> nat \<Rightarrow> nat \<Rightarrow> nat" where
  "conv_out h ks s p = (h + 2 * p - ks) div s + 1"

definition convT_out :: "nat \<Rightarrow> nat \<Rightarrow> nat \<Rightarrow> nat \<Rightarrow> int" where
  "convT_out h ks s p = (int h - 1) * int s - 2 * int p + int ks"

subsection \<open>Values\<close>

definition conv2d_elems :: "kernel \<Rightarrow> nat \<Rightarrow> nat \<Rightarrow> nat \<Rightarrow> nat \<Rightarrow> tensor \<Rightarrow> nat list \<Rightarrow> real" where
  "conv2d_elems w n_in ks s p x idx =
     (case (shape x, idx) of
        ([N, C, H, W], [n, co, i, j]) \<Rightarrow>
          (\<Sum>ci\<leftarrow>[0..<n_in]. \<Sum>a\<leftarrow>[0..<ks]. \<Sum>b\<leftarrow>[0..<ks].
             (if p \<le> i * s + a \<and> i * s + a - p < H \<and> p \<le> j * s + b \<and> j * s + b - p < W
              then w co ci a b * elems x [n, ci, i * s + a - p, j * s + b - p] else 0))
      | _ \<Rightarrow> 0)"

definition convT2d_elems :: "kernel \<Rightarrow> nat \<Rightarrow> nat \<Rightarrow> nat \<Rightarrow> nat \<Rightarrow> tensor \<Rightarrow> nat list \<Rightarrow> real" where
  "convT2d_elems w n_in ks s p x idx =
     (case (shape x, idx) of
        ([N, C, H, W], [n, co, i, j]) \<Rightarrow>
          (\<Sum>ci\<leftarrow>[0..<n_in]. \<Sum>a\<leftarrow>[0..<ks]. \<Sum>b\<leftarrow>[0..<ks].
             (if a \<le> i + p \<and> (i + p - a) mod s = 0 \<and> (i + p - a) div s < H
                 \<and> b \<le> j + p \<and> (j + p - b) mod s = 0 \<and> (j + p - b) div s < W
              then elems x [n, ci, (i + p - a) div s, (j + p - b) div s] * w ci co a b else 0))
      | _ \<Rightarrow> 0)"

definition bn_eps :: real where
  "bn_eps = 1 / 100000"

definition bn_momentum :: real where
  "bn_momentum = 1 / 10"

text \<open>The number of values per channel, and the batch mean and (biased) batch variance.\<close>

definition per_channel :: "tensor \<Rightarrow> nat" where
  "per_channel x = (case shape x of [N, C, H, W] \<Rightarrow> N * H * W | _ \<Rightarrow> 0)"

definition channel_sum :: "tensor \<Rightarrow> (real \<Rightarrow> real) \<Rightarrow> nat \<Rightarrow> real" where
  "channel_sum x f c =
     (case shape x of
        [N, C, H, W] \<Rightarrow> (\<Sum>n\<leftarrow>[0..<N]. \<Sum>i\<leftarrow>[0..<H]. \<Sum>j\<leftarrow>[0..<W]. f (elems x [n, c, i, j]))
      | _ \<Rightarrow> 0)"

definition batch_mean :: "tensor \<Rightarrow> nat \<Rightarrow> real" where
  "batch_mean x c = channel_sum x (\<lambda>v. v) c / real (per_channel x)"

definition batch_var :: "tensor \<Rightarrow> nat \<Rightarrow> real" where
  "batch_var x c = channel_sum x (\<lambda>v. (v - batch_mean x c)\<^sup>2) c / real (per_channel x)"

definition normalize :: "bn_params \<Rightarrow> (nat \<Rightarrow> real) \<Rightarrow> (nat \<Rightarrow> real) \<Rightarrow> tensor \<Rightarrow> nat list \<Rightarrow> real" where
  "normalize P mu var x idx =
     (case idx of
        [n, c, i, j] \<Rightarrow> (elems x idx - mu c) / sqrt (var c + bn_eps) * bn_weight P c + bn_bias P c
      | _ \<Rightarrow> 0)"

text \<open>
  In training mode a \<^verbatim>\<open>BatchNorm2d\<close> layer counts the batch and moves its running
  statistics towards those of the batch (the variance with Bessel's correction). For an
  empty batch the values the library leaves in the running statistics are not modelled; no
  statement below depends on them.
\<close>

definition track_running_stats :: "bn_params \<Rightarrow> tensor \<Rightarrow> bn_params" where
  "track_running_stats P x =
     P\<lparr>running_mean := (\<lambda>c. (1 - bn_momentum) * running_mean P c + bn_momentum * batch_mean x c),
       running_var := (\<lambda>c. (1 - bn_momentum) * running_var P c
          + bn_momentum * (batch_var x c * real (per_channel x) / (real (per_channel x) - 1))),
       num_batches_tracked := num_batches_tracked P + 1\<rparr>"

subsection \<open>Applying one layer\<close>

text \<open>
  \<open>layer_forward tr l x\<close> is \<^verbatim>\<open>l(x)\<close> with the module in training mode (\<open>tr\<close>) or in
  evaluation mode: the exception raised, or the output together with the layer as the call
  leaves it. The activations are constructed with \<^verbatim>\<open>inplace=True\<close>; they overwrite the
  tensor their predecessor has just produced, never the caller's input.
\<close>

text \<open>
  The networks read batches of images: tensors of four dimensions, batch, channels, height
  and width. A convolution or normalization applied to a tensor of another rank raises.
\<close>

fun dims4 :: "nat list \<Rightarrow> (nat \<times> nat \<times> nat \<times> nat) option" where
  "dims4 [N, C, H, W] = Some (N, C, H, W)"
| "dims4 sh = None"

fun layer_forward :: "bool \<Rightarrow> layer \<Rightarrow> tensor \<Rightarrow> error + tensor \<times> layer" where
  "layer_forward tr (Conv2d n_in n_out ks s p w) x =
     (case dims4 (shape x) of
        None \<Rightarrow> Inl BadRank
      | Some (N, C, H, W) \<Rightarrow>
          if C = 0 \<or> H = 0 \<or> W = 0 then Inl EmptyInput
          else if C \<noteq> n_in then Inl ChannelMismatch
          else if s = 0 then Inl BadStride
          else if ks = 0 then Inl BadKernel
          else if n_out = 0 then Inl EmptyOutput
          else if H + 2 * p < ks \<or> W + 2 * p < ks then Inl KernelTooLarge
          else Inr (\<lparr>shape = [N, n_out, conv_out H ks s p, conv_out W ks s p],
                     elems = conv2d_elems w n_in ks s p x\<rparr>, Conv2d n_in n_out ks s p w))"
| "layer_forward tr (ConvTranspose2d n_in n_out ks s p w) x =
     (case dims4 (shape x) of
        None \<Rightarrow> Inl BadRank
      | Some (N, C, H, W) \<Rightarrow>
          if C = 0 \<or> H = 0 \<or> W = 0 then Inl EmptyInput
          else if C \<noteq> n_in then Inl ChannelMismatch
          else if s = 0 then Inl BadStride
          else if ks = 0 then Inl BadKernel
          else if n_out = 0 then Inl EmptyOutput
          else if convT_out H ks s p < 1 \<or> convT_out W ks s p < 1 then Inl OutputTooSmall
          else Inr (\<lparr>shape = [N, n_out, nat (convT_out H ks s p), nat (convT_out W ks s p)],
                     elems = convT2d_elems w n_in ks s p x\<rparr>, ConvTranspose2d n_in n_out ks s p w))"
| "layer_forward tr (BatchNorm2d nf P) x =
     (case dims4 (shape x) of
        None \<Rightarrow> Inl BadRank
      | Some (N, C, H, W) \<Rightarrow>
          if C \<noteq> nf then Inl ChannelMismatch
          else if tr then
            (if N * H * W = 1 then Inl OneValuePerChannel
             else Inr (x\<lparr>elems := normalize P (batch_mean x) (batch_var x) x\<rparr>,
                       BatchNorm2d nf (track_running_stats P x)))
          else Inr (x\<lparr>elems := normalize P (running_mean P) (running_var P) x\<rparr>,
                    BatchNorm2d nf P))"
| "layer_forward tr ReLU x = Inr (x\<lparr>elems := (\<lambda>idx. max 0 (elems x idx))\<rparr>, ReLU)"
| "layer_forward tr (LeakyReLU slope) x =
     Inr (x\<lparr>elems := (\<lambda>idx. if 0 \<le> elems x idx then elems x idx else slope * elems x idx)\<rparr>,
          LeakyReLU slope)"
| "layer_forward tr Tanh x = Inr (x\<lparr>elems := (\<lambda>idx. tanh (elems x idx))\<rparr>, Tanh)"

text \<open>
  \<^verbatim>\<open>nn.Sequential\<close>: the members are applied in order, each to the output of the one
  before; the first exception ends the call. A call that returns gives back the members as
  it leaves them. A call that raises gives back the exception only: what the members it
  had passed already wrote to their buffers is not part of the model.
\<close>

fun Sequential_forward ::
  "('m \<Rightarrow> tensor \<Rightarrow> error + tensor \<times> 'm) \<Rightarrow> 'm list \<Rightarrow> tensor \<Rightarrow> error + tensor \<times> 'm list" where
  "Sequential_forward f [] x = Inr (x, [])"
| "Sequential_forward f (m # ms) x =
     bind (f m x) (\<lambda>(y, m'). bind (Sequential_forward f ms y) (\<lambda>(z, ms'). Inr (z, m' # ms')))"

text \<open>
  \<^verbatim>\<open>Tensor.mean(0)\<close> averages over the first dimension and drops it (of an empty batch
  the library returns NaN, the model 0), and \<^verbatim>\<open>Tensor.view(1)\<close> needs exactly one
  element.
\<close>

definition mean0 :: "tensor \<Rightarrow> tensor" where
  "mean0 x =
     (case shape x of
        [] \<Rightarrow> x
      | N # rest \<Rightarrow> \<lparr>shape = rest, elems = (\<lambda>idx. (\<Sum>n\<leftarrow>[0..<N]. elems x (n # idx)) / real N)\<rparr>)"

definition view1 :: "tensor \<Rightarrow> error + tensor" where
  "view1 x =
     (if prod_list (shape x) = 1
      then Inr \<lparr>shape = [1], elems = (\<lambda>idx. elems x (replicate (length (shape x)) 0))\<rparr>
      else Inl ViewSize)"

section \<open>model/WGAN.py\<close>

subsection \<open>DeconvBlock\<close>

record DeconvBlock =
  conv :: layer
  bn :: layer
  relu :: layer

text \<open>
  \<^verbatim>\<open>DeconvBlock.__init__(self, n_in, n_out, ks, stride, pad, bn=True)\<close>. The last two
  arguments of the model are the values the library gives the learned parameters and buffers
  of the two layers (random at construction, rewritten by training). The argument
  \<^verbatim>\<open>bn\<close> is \<open>bn_arg\<close> here, since \<open>bn\<close> names the field. The constructor stores
  a \<^verbatim>\<open>BatchNorm2d\<close> in \<^verbatim>\<open>self.bn\<close> whatever that argument is.
\<close>

definition DeconvBlock_init ::
  "nat \<Rightarrow> nat \<Rightarrow> nat \<Rightarrow> nat \<Rightarrow> nat \<Rightarrow> bool \<Rightarrow> kernel \<Rightarrow> bn_params \<Rightarrow> DeconvBlock" where
  "DeconvBlock_init n_in n_out ks stride pad bn_arg w b =
     \<lparr>conv = ConvTranspose2d n_in n_out ks stride pad w,
      bn = BatchNorm2d n_out b,
      relu = ReLU\<rparr>"

text \<open>
  The truth value Python gives a layer object in \<^verbatim>\<open>self.bn(x) if self.bn else x\<close>: none
  of the layer classes defines \<^verbatim>\<open>__bool__\<close> or \<^verbatim>\<open>__len__\<close>, so it is true.
\<close>

fun truthy :: "layer \<Rightarrow> bool" where
  "truthy l = True"

definition DeconvBlock_forward :: "bool \<Rightarrow> DeconvBlock \<Rightarrow> tensor \<Rightarrow> error + tensor \<times> DeconvBlock" where
  "DeconvBlock_forward tr self x =
     bind (layer_forward tr (conv self) x) (\<lambda>(x1, conv').
     bind (layer_forward tr (relu self) x1) (\<lambda>(x2, relu').
       if truthy (bn self)
       then bind (layer_forward tr (bn self) x2) (\<lambda>(x3, bn').
              Inr (x3, \<lparr>conv = conv', bn = bn', relu = relu'\<rparr>))
       else Inr (x2, \<lparr>conv = conv', bn = bn self, relu = relu'\<rparr>)))"

subsection \<open>conv_block\<close>

text \<open>
  The members of the two pipelines: a plain layer, a \<^verbatim>\<open>DeconvBlock\<close>, or the
  \<^verbatim>\<open>nn.Sequential\<close> of layers that \<^verbatim>\<open>conv_block\<close> returns.
\<close>

datatype module =
    Layer layer
  | Deconv DeconvBlock
  | Sequential "layer list"

text \<open>
  \<^verbatim>\<open>conv_block(n_in, n_out, ks, stride, pad=None, bn=True)\<close>; \<^verbatim>\<open>pad=None\<close> is
  \<open>None\<close>, and Python's \<^verbatim>\<open>ks//2//stride\<close> raises for a zero stride.
\<close>

definition conv_block ::
  "nat \<Rightarrow> nat \<Rightarrow> nat \<Rightarrow> nat \<Rightarrow> nat option \<Rightarrow> bool \<Rightarrow> kernel \<Rightarrow> bn_params \<Rightarrow> error + module" where
  "conv_block n_in n_out ks stride pad bn_arg w b =
     bind (case pad of
             None \<Rightarrow> if stride = 0 then Inl ZeroDivisionError else Inr (ks div 2 div stride)
           | Some p \<Rightarrow> Inr p)
       (\<lambda>pad'.
          if bn_arg = True
          then Inr (Sequential [Conv2d n_in n_out ks stride pad' w, BatchNorm2d n_out b,
                                LeakyReLU (2 / 10)])
          else Inr (Sequential [Conv2d n_in n_out ks stride pad' w, LeakyReLU (2 / 10)]))"

fun module_forward :: "bool \<Rightarrow> module \<Rightarrow> tensor \<Rightarrow> error + tensor \<times> module" where
  "module_forward tr (Layer l) x = bind (layer_forward tr l x) (\<lambda>(y, l'). Inr (y, Layer l'))"
| "module_forward tr (Deconv b) x = bind (DeconvBlock_forward tr b x) (\<lambda>(y, b'). Inr (y, Deconv b'))"
| "module_forward tr (Sequential ls) x =
     bind (Sequential_forward (layer_forward tr) ls x) (\<lambda>(y, ls'). Inr (y, Sequential ls'))"

text \<open>Python evaluates the arguments of a call in order; the first one that raises wins.\<close>

fun in_order :: "(error + 'a) list \<Rightarrow> error + 'a list" where
  "in_order [] = Inr []"
| "in_order (r # rs) = bind r (\<lambda>v. bind (in_order rs) (\<lambda>vs. Inr (v # vs)))"

subsection \<open>Discriminator\<close>

text \<open>
  \<open>training\<close> is the mode flag every \<^verbatim>\<open>nn.Module\<close> has; it is true after construction,
  and \<^verbatim>\<open>train(mode)\<close> and \<^verbatim>\<open>eval()\<close> set it for a module and all its members at
  once. \<open>Wt k\<close> and \<open>Bn k\<close> are the weight of the convolution and the parameters and
  buffers of the normalization in stage \<open>k\<close>, counting the stages of \<open>main64\<close> from 0
  and those of \<open>main128\<close> from 5; the library draws the weights at random and training
  rewrites them, so they are arguments here. \<open>nc\<close> and \<open>ngpu\<close> default to 3 and 1.
\<close>

record Discriminator =
  ngpu :: int
  im_size :: int
  main64 :: "module list"
  main128 :: "module list"
  training :: bool

definition Discriminator_init ::
  "int \<Rightarrow> nat \<Rightarrow> nat \<Rightarrow> nat \<Rightarrow> int \<Rightarrow> (nat \<Rightarrow> kernel) \<Rightarrow> (nat \<Rightarrow> bn_params) \<Rightarrow> error + Discriminator" where
  "Discriminator_init im_size' ks ndf nc ngpu' Wt Bn =
     bind (in_order
       [conv_block nc ndf ks 2 (Some 1) False (Wt 0) (Bn 0),
        conv_block ndf (ndf * 2) ks 2 (Some 1) True (Wt 1) (Bn 1),
        conv_block (ndf * 2) (ndf * 4) ks 2 (Some 1) True (Wt 2) (Bn 2),
        conv_block (ndf * 4) (ndf * 8) ks 2 (Some 1) True (Wt 3) (Bn 3),
        Inr (Layer (Conv2d (ndf * 8) 1 ks 1 0 (Wt 4)))]) (\<lambda>m64.
     bind (in_order
       [conv_block nc ndf ks 2 (Some 1) False (Wt 5) (Bn 5),
        conv_block ndf (ndf * 2) ks 2 (Some 1) True (Wt 6) (Bn 6),
        conv_block (ndf * 2) (ndf * 4) ks 2 (Some 1) True (Wt 7) (Bn 7),
        conv_block (ndf * 4) (ndf * 8) ks 2 (Some 1) True (Wt 8) (Bn 8),
        conv_block (ndf * 8) (ndf * 16) ks 2 (Some 1) True (Wt 9) (Bn 9),
        Inr (Layer (Conv2d (ndf * 16) 1 ks 1 0 (Wt 10)))]) (\<lambda>m128.
     Inr \<lparr>ngpu = ngpu', im_size = im_size', main64 = m64, main128 = m128, training = True\<rparr>))"

definition Discriminator_train :: "bool \<Rightarrow> Discriminator \<Rightarrow> Discriminator" where
  "Discriminator_train mode self = self\<lparr>training := mode\<rparr>"

definition Discriminator_forward :: "Discriminator \<Rightarrow> tensor \<Rightarrow> error + tensor \<times> Discriminator" where
  "Discriminator_forward self input =
     (if im_size self = 64
      then bind (Sequential_forward (module_forward (training self)) (main64 self) input) (\<lambda>(y, ms).
           bind (view1 (mean0 y)) (\<lambda>r. Inr (r, self\<lparr>main64 := ms\<rparr>)))
      else bind (Sequential_forward (module_forward (training self)) (main128 self) input) (\<lambda>(y, ms).
           bind (view1 (mean0 y)) (\<lambda>r. Inr (r, self\<lparr>main128 := ms\<rparr>))))"

subsection \<open>Generator\<close>

record Generator =
  ngpu :: int
  im_size :: int
  main64 :: "module list"
  main128 :: "module list"
  training :: bool

definition Generator_init ::
  "int \<Rightarrow> nat \<Rightarrow> nat \<Rightarrow> nat \<Rightarrow> nat \<Rightarrow> int \<Rightarrow> (nat \<Rightarrow> kernel) \<Rightarrow> (nat \<Rightarrow> bn_params) \<Rightarrow> Generator" where
  "Generator_init im_size' ks nz ngf nc ngpu' Wt Bn =
     \<lparr>ngpu = ngpu', im_size = im_size',
      main64 =
        [Deconv (DeconvBlock_init nz (ngf * 8) ks 1 0 True (Wt 0) (Bn 0)),
         Deconv (DeconvBlock_init (ngf * 8) (ngf * 4) ks 2 1 True (Wt 1) (Bn 1)),
         Deconv (DeconvBlock_init (ngf * 4) (ngf * 2) ks 2 1 True (Wt 2) (Bn 2)),
         Deconv (DeconvBlock_init (ngf * 2) ngf ks 2 1 True (Wt 3) (Bn 3)),
         Layer (ConvTranspose2d ngf nc ks 2 1 (Wt 4)),
         Layer Tanh],
      main128 =
        [Deconv (DeconvBlock_init nz (ngf * 16) ks 1 0 True (Wt 5) (Bn 5)),
         Deconv (DeconvBlock_init (ngf * 16) (ngf * 8) ks 2 1 True (Wt 6) (Bn 6)),
         Deconv (DeconvBlock_init (ngf * 8) (ngf * 4) ks 2 1 True (Wt 7) (Bn 7)),
         Deconv (DeconvBlock_init (ngf * 4) (ngf * 2) ks 2 1 True (Wt 8) (Bn 8)),
         Deconv (DeconvBlock_init (ngf * 2) ngf ks 2 1 True (Wt 9) (Bn 9)),
         Layer (ConvTranspose2d ngf nc ks 2 1 (Wt 10)),
         Layer Tanh],
      training = True\<rparr>"

definition Generator_train :: "bool \<Rightarrow> Generator \<Rightarrow> Generator" where
  "Generator_train mode self = self\<lparr>training := mode\<rparr>"

definition Generator_forward :: "Generator \<Rightarrow> tensor \<Rightarrow> error + tensor \<times> Generator" where
  "Generator_forward self input =
     (if im_size self = 64
      then bind (Sequential_forward (module_forward (training self)) (main64 self) input) (\<lambda>(y, ms).
           Inr (y, self\<lparr>main64 := ms\<rparr>))
      else bind (Sequential_forward (module_forward (training self)) (main128 self) input) (\<lambda>(y, ms).
           Inr (y, self\<lparr>main128 := ms\<rparr>)))"

section \<open>Shapes\<close>

text \<open>
  The shape of a result, and the shape a layer, a block or a pipeline gives its output as a
  function of the shape of its input alone. These functions repeat the checks of
  \<open>layer_forward\<close>; \<open>layer_forward_shape\<close> and its companions below prove that they
  describe the shapes of the real outputs.
\<close>

definition out_shape :: "error + tensor \<times> 'a \<Rightarrow> error + nat list" where
  "out_shape r = map_sum id (\<lambda>(y, m). shape y) r"

fun layer_shape :: "bool \<Rightarrow> layer \<Rightarrow> nat list \<Rightarrow> error + nat list" where
  "layer_shape tr (Conv2d n_in n_out ks s p w) sh =
     (case dims4 sh of
        None \<Rightarrow> Inl BadRank
      | Some (N, C, H, W) \<Rightarrow>
          if C = 0 \<or> H = 0 \<or> W = 0 then Inl EmptyInput
          else if C \<noteq> n_in then Inl ChannelMismatch
          else if s = 0 then Inl BadStride
          else if ks = 0 then Inl BadKernel
          else if n_out = 0 then Inl EmptyOutput
          else if H + 2 * p < ks \<or> W + 2 * p < ks then Inl KernelTooLarge
          else Inr [N, n_out, conv_out H ks s p, conv_out W ks s p])"
| "layer_shape tr (ConvTranspose2d n_in n_out ks s p w) sh =
     (case dims4 sh of
        None \<Rightarrow> Inl BadRank
      | Some (N, C, H, W) \<Rightarrow>
          if C = 0 \<or> H = 0 \<or> W = 0 then Inl EmptyInput
          else if C \<noteq> n_in then Inl ChannelMismatch
          else if s = 0 then Inl BadStride
          else if ks = 0 then Inl BadKernel
          else if n_out = 0 then Inl EmptyOutput
          else if convT_out H ks s p < 1 \<or> convT_out W ks s p < 1 then Inl OutputTooSmall
          else Inr [N, n_out, nat (convT_out H ks s p), nat (convT_out W ks s p)])"
| "layer_shape tr (BatchNorm2d nf P) sh =
     (case dims4 sh of
        None \<Rightarrow> Inl BadRank
      | Some (N, C, H, W) \<Rightarrow>
          if C \<noteq> nf then Inl ChannelMismatch
          else if tr \<and> N * H * W = 1 then Inl OneValuePerChannel
          else Inr sh)"
| "layer_shape tr ReLU sh = Inr sh"
| "layer_shape tr (LeakyReLU slope) sh = Inr sh"
| "layer_shape tr Tanh sh = Inr sh"

fun Sequential_shape :: "('m \<Rightarrow> nat list \<Rightarrow> error + nat list) \<Rightarrow> 'm list \<Rightarrow> nat list \<Rightarrow> error + nat list" where
  "Sequential_shape f [] sh = Inr sh"
| "Sequential_shape f (m # ms) sh = bind (f m sh) (Sequential_shape f ms)"

definition DeconvBlock_shape :: "bool \<Rightarrow> DeconvBlock \<Rightarrow> nat list \<Rightarrow> error + nat list" where
  "DeconvBlock_shape tr self sh =
     bind (layer_shape tr (conv self) sh) (\<lambda>s1.
     bind (layer_shape tr (relu self) s1) (\<lambda>s2.
       if truthy (bn self) then layer_shape tr (bn self) s2 else Inr s2))"

fun module_shape :: "bool \<Rightarrow> module \<Rightarrow> nat list \<Rightarrow> error + nat list" where
  "module_shape tr (Layer l) sh = layer_shape tr l sh"
| "module_shape tr (Deconv b) sh = DeconvBlock_shape tr b sh"
| "module_shape tr (Sequential ls) sh = Sequential_shape (layer_shape tr) ls sh"

text \<open>The shape of \<^verbatim>\<open>y.mean(0).view(1)\<close>, from the shape of \<open>y\<close>.\<close>

definition score_shape :: "nat list \<Rightarrow> error + nat list" where
  "score_shape sh = (if prod_list (tl sh) = 1 then Inr [1] else Inl ViewSize)"

text \<open>The tensor a call returns, without the module it leaves behind.\<close>

definition out_tensor :: "error + tensor \<times> 'a \<Rightarrow> error + tensor" where
  "out_tensor r = map_sum id fst r"

text \<open>Concrete arguments for the worked instances: \<^verbatim>\<open>torch.ones(shape)\<close>, all-one weights, fresh buffers.\<close>

definition ones :: "nat list \<Rightarrow> tensor" where
  "ones sh = \<lparr>shape = sh, elems = (\<lambda>idx. 1)\<rparr>"

definition sample_Wt :: "nat \<Rightarrow> kernel" where
  "sample_Wt k = (\<lambda>co ci a b. 1)"

definition sample_Bn :: "nat \<Rightarrow> bn_params" where
  "sample_Bn k = bn_fresh"

section \<open>Observations on the pipelines\<close>

text \<open>
  Whether a member of a pipeline applies a normalization: a \<^verbatim>\<open>nn.Sequential\<close> applies
  all its members, a \<^verbatim>\<open>DeconvBlock\<close> its \<open>bn\<close> when that is true for Python.
\<close>

fun is_norm :: "layer \<Rightarrow> bool" where
  "is_norm (BatchNorm2d nf P) = True"
| "is_norm l = False"

fun normalizes :: "module \<Rightarrow> bool" where
  "normalizes (Layer l) = is_norm l"
| "normalizes (Deconv b) = (truthy (bn b) \<and> is_norm (bn b))"
| "normalizes (Sequential ls) = list_ex is_norm ls"

text \<open>The batch counters of the normalization layers, in the order of application.\<close>

fun layer_counts :: "layer \<Rightarrow> nat list" where
  "layer_counts (BatchNorm2d nf P) = [num_batches_tracked P]"
| "layer_counts l = []"

fun module_counts :: "module \<Rightarrow> nat list" where
  "module_counts (Layer l) = layer_counts l"
| "module_counts (Deconv b) = layer_counts (conv b) @ layer_counts (relu b) @ layer_counts (bn b)"
| "module_counts (Sequential ls) = concat (map layer_counts ls)"

definition pipeline_counts :: "module list \<Rightarrow> nat list" where
  "pipeline_counts ms = concat (map module_counts ms)"

text \<open>
  The channel counts the layers are constructed with, in the order of application. The
  first is the number of channels the pipeline reads and the last the number it writes;
  the others are internal.
\<close>

fun layer_channels :: "layer \<Rightarrow> nat list" where
  "layer_channels (Conv2d n_in n_out ks s p w) = [n_in, n_out]"
| "layer_channels (ConvTranspose2d n_in n_out ks s p w) = [n_in, n_out]"
| "layer_channels (BatchNorm2d nf P) = [nf]"
| "layer_channels l = []"

fun module_channels :: "module \<Rightarrow> nat list" where
  "module_channels (Layer l) = layer_channels l"
| "module_channels (Deconv b) = layer_channels (conv b) @ layer_channels (relu b) @ layer_channels (bn b)"
| "module_channels (Sequential ls) = concat (map layer_channels ls)"

definition internal_channels :: "module list \<Rightarrow> nat list" where
  "internal_channels ms = butlast (tl (concat (map module_channels ms)))"

text \<open>
  A layer with the buffers of its normalization put back to their initial values (the
  library's \<^verbatim>\<open>reset_running_stats\<close>); its hyper-parameters and learned parameters stay.
\<close>

fun reset_running_stats :: "layer \<Rightarrow> layer" where
  "reset_running_stats (BatchNorm2d nf P) =
     BatchNorm2d nf (P\<lparr>running_mean := (\<lambda>c. 0), running_var := (\<lambda>c. 1), num_batches_tracked := 0\<rparr>)"
| "reset_running_stats l = l"

fun reset_module :: "module \<Rightarrow> module" where
  "reset_module (Layer l) = Layer (reset_running_stats l)"
| "reset_module (Deconv b) =
     Deconv \<lparr>conv = reset_running_stats (conv b), bn = reset_running_stats (bn b),
             relu = reset_running_stats (relu b)\<rparr>"
| "reset_module (Sequential ls) = Sequential (map reset_running_stats ls)"

section \<open>Results carry the shape the shape functions predict\<close>

lemma bind_Inl [simp]: "bind (Inl e) f = Inl e"
  by (simp add: bind_def)

lemma bind_Inr [simp]: "bind (Inr v) f = f v"
  by (simp add: bind_def)

lemma out_shape_simps [simp]:
  "out_shape (Inl e) = Inl e" "out_shape (Inr (y, m)) = Inr (shape y)"
  by (simp_all add: out_shape_def)

lemma out_shape_bind:
  "out_shape (bind r (\<lambda>(y, m). Inr (y, g m))) = out_shape r"
  by (cases r) (auto)

lemma layer_forward_shape: "out_shape (layer_forward tr l x) = layer_shape tr l (shape x)"
proof (cases "dims4 (shape x)")
  case None
  then show ?thesis by (cases l) simp_all
next
  case (Some d)
  obtain N C H W where "d = (N, C, H, W)" by (cases d)
  with Some show ?thesis by (cases l) simp_all
qed

lemma Sequential_forward_shape:
  assumes "\<And>m x. out_shape (f m x) = g m (shape x)"
  shows "out_shape (Sequential_forward f ms x) = Sequential_shape g ms (shape x)"
proof (induction ms arbitrary: x)
  case Nil
  show ?case by simp
next
  case (Cons m ms)
  have step: "Sequential_shape g (m # ms) (shape x) = bind (out_shape (f m x)) (Sequential_shape g ms)"
    by (simp add: assms)
  show ?case
  proof (cases "f m x")
    case (Inl e)
    then show ?thesis unfolding step by simp
  next
    case (Inr r)
    obtain y m' where r: "r = (y, m')" by (cases r)
    have "out_shape (Sequential_forward f (m # ms) x) = out_shape (Sequential_forward f ms y)"
      using Inr r by (simp add: out_shape_bind)
    also have "\<dots> = Sequential_shape g ms (shape y)" by (rule Cons.IH)
    finally show ?thesis unfolding step using Inr r by simp
  qed
qed

lemma DeconvBlock_forward_shape:
  "out_shape (DeconvBlock_forward tr b x) = DeconvBlock_shape tr b (shape x)"
proof -
  have s: "DeconvBlock_shape tr b (shape x) =
      bind (out_shape (layer_forward tr (conv b) x)) (\<lambda>s1.
      bind (layer_shape tr (relu b) s1) (\<lambda>s2. layer_shape tr (bn b) s2))"
    by (simp add: DeconvBlock_shape_def layer_forward_shape)
  show ?thesis
  proof (cases "layer_forward tr (conv b) x")
    case (Inl e)
    then show ?thesis unfolding s by (simp add: DeconvBlock_forward_def)
  next
    case (Inr r)
    obtain x1 c where r: "r = (x1, c)" by (cases r)
    show ?thesis
    proof (cases "layer_forward tr (relu b) x1")
      case (Inl e)
      then show ?thesis unfolding s using Inr r layer_forward_shape [of tr "relu b" x1, symmetric]
        by (simp add: DeconvBlock_forward_def)
    next
      case r2: (Inr q)
      obtain x2 rl where q: "q = (x2, rl)" by (cases q)
      show ?thesis unfolding s
        using Inr r r2 q layer_forward_shape [of tr "relu b" x1, symmetric]
          layer_forward_shape [of tr "bn b" x2, symmetric]
        by (simp add: DeconvBlock_forward_def out_shape_bind)
    qed
  qed
qed

lemma module_forward_shape:
  "out_shape (module_forward tr m x) = module_shape tr m (shape x)"
proof (cases m)
  case (Layer l)
  then show ?thesis
    using layer_forward_shape [of tr l x] by (simp add: out_shape_bind)
next
  case (Deconv b)
  then show ?thesis
    using DeconvBlock_forward_shape [of tr b x] by (simp add: out_shape_bind)
next
  case (Sequential ls)
  then show ?thesis
    using Sequential_forward_shape [of "layer_forward tr" "layer_shape tr" ls x, OF layer_forward_shape]
    by (simp add: out_shape_bind)
qed

lemmas pipeline_forward_shape =
  Sequential_forward_shape [of "module_forward tr" "module_shape tr" for tr, OF module_forward_shape]

lemma Generator_main64_shape: "0 < nz \<Longrightarrow> 0 < ngf \<Longrightarrow> 0 < nc \<Longrightarrow> Sequential_shape (module_shape tr) (Generator.main64 (Generator_init im 4 nz ngf nc gpus Wt Bn)) [N, nz, 1, 1] = Inr [N, nc, 64, 64]"
  by (simp add: Generator_init_def DeconvBlock_init_def DeconvBlock_shape_def convT_out_def)

lemma Generator_main128_shape: "0 < nz \<Longrightarrow> 0 < ngf \<Longrightarrow> 0 < nc \<Longrightarrow> Sequential_shape (module_shape tr) (Generator.main128 (Generator_init im 4 nz ngf nc gpus Wt Bn)) [N, nz, 1, 1] = Inr [N, nc, 128, 128]"
  by (simp add: Generator_init_def DeconvBlock_init_def DeconvBlock_shape_def convT_out_def)

lemma out_shape_InrD: "out_shape r = Inr sh \<Longrightarrow> \<exists>y m. r = Inr (y, m) \<and> shape y = sh"
  by (cases r) (auto simp: out_shape_def)

lemma Sequential_forward_snoc:
  "Sequential_forward f (ms @ [m]) x =
     bind (Sequential_forward f ms x) (\<lambda>(y, ms'). bind (f m y) (\<lambda>(z, m'). Inr (z, ms' @ [m'])))"
proof (induction ms arbitrary: x)
  case Nil
  show ?case by (cases "f m x") auto
next
  case (Cons a ms)
  show ?case
  proof (cases "f a x")
    case (Inl e)
    then show ?thesis by simp
  next
    case (Inr r)
    obtain y a' where r: "r = (y, a')" by (cases r)
    show ?thesis
    proof (cases "Sequential_forward f ms y")
      case (Inl e)
      then show ?thesis using Inr r Cons.IH [of y] by simp
    next
      case q: (Inr s)
      obtain z ms' where s: "s = (z, ms')" by (cases s)
      show ?thesis
      proof (cases "f m z")
        case (Inl e)
        then show ?thesis using Inr r q s Cons.IH [of y] by simp
      next
        case t: (Inr u)
        obtain v m' where "u = (v, m')" by (cases u)
        then show ?thesis using Inr r q s t Cons.IH [of y] by simp
      qed
    qed
  qed
qed

lemma Tanh_last_range:
  assumes "Sequential_forward (module_forward tr) (ms @ [Layer Tanh]) x = Inr (z, ms')"
  shows "- 1 \<le> elems z idx \<and> elems z idx \<le> 1"
proof (cases "Sequential_forward (module_forward tr) ms x")
  case (Inl e)
  with assms show ?thesis by (simp add: Sequential_forward_snoc)
next
  case (Inr r)
  obtain y ms0 where "r = (y, ms0)" by (cases r)
  with Inr assms have "z = y\<lparr>elems := (\<lambda>idx. tanh (elems y idx))\<rparr>"
    by (simp add: Sequential_forward_snoc)
  then show ?thesis
    using tanh_real_gt_neg1 [of "elems y idx"] tanh_real_lt_1 [of "elems y idx"] by simp
qed

section \<open>The generator's output\<close>

text \<open>
  C1 (as amended): for every batch size \<open>N\<close> and in either mode, a generator built with
  kernel size 4 and positive \<open>nz\<close>, \<open>ngf\<close> and \<open>nc\<close> maps a latent tensor of shape
  \<open>[N, nz, 1, 1]\<close> to a tensor of shape \<open>[N, nc, 64, 64]\<close> when its resolution is 64 and
  of shape \<open>[N, nc, 128, 128]\<close> when it is 128 (\<open>nc\<close> is 3 by default). In training
  mode, and in evaluation mode when no running variance of its normalization layers is
  negative, every value of the output, computed in exact real arithmetic on finite values,
  lies in \<open>[-1, 1]\<close>. (The library's square root of a negative number is NaN, and so is
  what floating point makes of an overflow; the real numbers of the model have neither.)
\<close>

theorem Generator_output:
  assumes "0 < nz" and "0 < ngf" and "0 < nc" and "shape x = [N, nz, 1, 1]"
  shows "(\<exists>y g'. Generator_forward (Generator_train mode (Generator_init 64 4 nz ngf nc gpus Wt Bn)) x = Inr (y, g')
            \<and> shape y = [N, nc, 64, 64]
            \<and> (mode \<or> (\<forall>k c. 0 \<le> running_var (Bn k) c) \<longrightarrow>
                 (\<forall>idx. - 1 \<le> elems y idx \<and> elems y idx \<le> 1)))
       \<and> (\<exists>y g'. Generator_forward (Generator_train mode (Generator_init 128 4 nz ngf nc gpus Wt Bn)) x = Inr (y, g')
            \<and> shape y = [N, nc, 128, 128]
            \<and> (mode \<or> (\<forall>k c. 0 \<le> running_var (Bn k) c) \<longrightarrow>
                 (\<forall>idx. - 1 \<le> elems y idx \<and> elems y idx \<le> 1)))"
proof (intro conjI)
  let ?g = "Generator_init 64 4 nz ngf nc gpus Wt Bn"
  let ?ms = "Generator.main64 ?g"
  have "out_shape (Sequential_forward (module_forward mode) ?ms x) = Inr [N, nc, 64, 64]"
    unfolding pipeline_forward_shape assms(4) by (rule Generator_main64_shape [OF assms(1,2,3)])
  then obtain y ms' where run: "Sequential_forward (module_forward mode) ?ms x = Inr (y, ms')"
    and sh: "shape y = [N, nc, 64, 64]"
    by (auto dest: out_shape_InrD)
  have "\<exists>ms0. ?ms = ms0 @ [Layer Tanh]"
    by (simp add: Generator_init_def)
  then obtain ms0 where "?ms = ms0 @ [Layer Tanh]" ..
  with run have rng: "\<forall>idx. - 1 \<le> elems y idx \<and> elems y idx \<le> 1"
    using Tanh_last_range [of mode ms0 x y ms'] by simp
  have "Generator_forward (Generator_train mode ?g) x
      = Inr (y, (Generator_train mode ?g)\<lparr>Generator.main64 := ms'\<rparr>)"
    using run by (simp add: Generator_forward_def Generator_train_def Generator_init_def)
  with sh rng show "\<exists>y g'. Generator_forward (Generator_train mode ?g) x = Inr (y, g')
            \<and> shape y = [N, nc, 64, 64]
            \<and> (mode \<or> (\<forall>k c. 0 \<le> running_var (Bn k) c) \<longrightarrow>
                 (\<forall>idx. - 1 \<le> elems y idx \<and> elems y idx \<le> 1))"
    by blast
next
  let ?g = "Generator_init 128 4 nz ngf nc gpus Wt Bn"
  let ?ms = "Generator.main128 ?g"
  have "out_shape (Sequential_forward (module_forward mode) ?ms x) = Inr [N, nc, 128, 128]"
    unfolding pipeline_forward_shape assms(4) by (rule Generator_main128_shape [OF assms(1,2,3)])
  then obtain y ms' where run: "Sequential_forward (module_forward mode) ?ms x = Inr (y, ms')"
    and sh: "shape y = [N, nc, 128, 128]"
    by (auto dest: out_shape_InrD)
  have "\<exists>ms0. ?ms = ms0 @ [Layer Tanh]"
    by (simp add: Generator_init_def)
  then obtain ms0 where "?ms = ms0 @ [Layer Tanh]" ..
  with run have rng: "\<forall>idx. - 1 \<le> elems y idx \<and> elems y idx \<le> 1"
    using Tanh_last_range [of mode ms0 x y ms'] by simp
  have "Generator_forward (Generator_train mode ?g) x
      = Inr (y, (Generator_train mode ?g)\<lparr>Generator.main128 := ms'\<rparr>)"
    using run by (simp add: Generator_forward_def Generator_train_def Generator_init_def)
  with sh rng show "\<exists>y g'. Generator_forward (Generator_train mode ?g) x = Inr (y, g')
            \<and> shape y = [N, nc, 128, 128]
            \<and> (mode \<or> (\<forall>k c. 0 \<le> running_var (Bn k) c) \<longrightarrow>
                 (\<forall>idx. - 1 \<le> elems y idx \<and> elems y idx \<le> 1))"
    by blast
qed

theorem Generator_output_witness:
  "(\<exists>y g'. Generator_forward (Generator_train True (Generator_init 64 4 100 64 3 1 sample_Wt sample_Bn))
              (ones [2, 100, 1, 1]) = Inr (y, g')
        \<and> shape y = [2, 3, 64, 64] \<and> (\<forall>idx. - 1 \<le> elems y idx \<and> elems y idx \<le> 1))
   \<and> (\<exists>y g'. Generator_forward (Generator_train True (Generator_init 128 4 100 64 3 1 sample_Wt sample_Bn))
              (ones [2, 100, 1, 1]) = Inr (y, g')
        \<and> shape y = [2, 3, 128, 128] \<and> (\<forall>idx. - 1 \<le> elems y idx \<and> elems y idx \<le> 1))"
  using Generator_output [where nz = 100 and ngf = 64 and nc = 3 and x = "ones [2, 100, 1, 1]"
      and N = 2 and mode = True and gpus = 1 and Wt = sample_Wt and Bn = sample_Bn]
  by (simp add: ones_def)

text \<open>
  With kernel size 3 the same generator returns 33 by 33 images: the sizes run
  1, 3, 5, 9, 17, 33.
\<close>

theorem Generator_kernel3_counterexample:
  "out_shape (Generator_forward (Generator_init 64 3 100 64 3 1 sample_Wt sample_Bn) (ones [2, 100, 1, 1]))
     = Inr [2, 3, 33, 33]"
proof -
  let ?g = "Generator_init 64 3 100 64 3 1 sample_Wt sample_Bn"
  have "out_shape (Generator_forward ?g (ones [2, 100, 1, 1]))
      = out_shape (Sequential_forward (module_forward True) (Generator.main64 ?g) (ones [2, 100, 1, 1]))"
    by (simp add: Generator_forward_def Generator_init_def out_shape_bind)
  also have "\<dots> = Sequential_shape (module_shape True) (Generator.main64 ?g) [2, 100, 1, 1]"
    by (simp add: pipeline_forward_shape ones_def)
  also have "\<dots> = Inr [2, 3, 33, 33]"
    by (simp add: Generator_init_def DeconvBlock_init_def DeconvBlock_shape_def convT_out_def)
  finally show ?thesis .
qed

section \<open>The discriminator's output\<close>

text \<open>The constructor never raises: every \<^verbatim>\<open>conv_block\<close> call passes its padding.\<close>

lemma Discriminator_init_Inr:
  "Discriminator_init im ks ndf nc gpus Wt Bn = Inr
     \<lparr>Discriminator.ngpu = gpus, im_size = im,
      main64 =
        [Sequential [Conv2d nc ndf ks 2 1 (Wt 0), LeakyReLU (2 / 10)],
         Sequential [Conv2d ndf (ndf * 2) ks 2 1 (Wt 1), BatchNorm2d (ndf * 2) (Bn 1), LeakyReLU (2 / 10)],
         Sequential [Conv2d (ndf * 2) (ndf * 4) ks 2 1 (Wt 2), BatchNorm2d (ndf * 4) (Bn 2), LeakyReLU (2 / 10)],
         Sequential [Conv2d (ndf * 4) (ndf * 8) ks 2 1 (Wt 3), BatchNorm2d (ndf * 8) (Bn 3), LeakyReLU (2 / 10)],
         Layer (Conv2d (ndf * 8) 1 ks 1 0 (Wt 4))],
      main128 =
        [Sequential [Conv2d nc ndf ks 2 1 (Wt 5), LeakyReLU (2 / 10)],
         Sequential [Conv2d ndf (ndf * 2) ks 2 1 (Wt 6), BatchNorm2d (ndf * 2) (Bn 6), LeakyReLU (2 / 10)],
         Sequential [Conv2d (ndf * 2) (ndf * 4) ks 2 1 (Wt 7), BatchNorm2d (ndf * 4) (Bn 7), LeakyReLU (2 / 10)],
         Sequential [Conv2d (ndf * 4) (ndf * 8) ks 2 1 (Wt 8), BatchNorm2d (ndf * 8) (Bn 8), LeakyReLU (2 / 10)],
         Sequential [Conv2d (ndf * 8) (ndf * 16) ks 2 1 (Wt 9), BatchNorm2d (ndf * 16) (Bn 9), LeakyReLU (2 / 10)],
         Layer (Conv2d (ndf * 16) 1 ks 1 0 (Wt 10))],
      training = True\<rparr>"
  by (simp add: Discriminator_init_def conv_block_def)

lemma Discriminator_main64_shape:
  assumes "0 < nc" and "0 < ndf" and "Discriminator_init im 4 ndf nc gpus Wt Bn = Inr d"
  shows "Sequential_shape (module_shape tr) (Discriminator.main64 d) [N, nc, 64, 64] = Inr [N, 1, 1, 1]"
proof -
  from assms(3) have "Discriminator.main64 d =
        [Sequential [Conv2d nc ndf 4 2 1 (Wt 0), LeakyReLU (2 / 10)],
         Sequential [Conv2d ndf (ndf * 2) 4 2 1 (Wt 1), BatchNorm2d (ndf * 2) (Bn 1), LeakyReLU (2 / 10)],
         Sequential [Conv2d (ndf * 2) (ndf * 4) 4 2 1 (Wt 2), BatchNorm2d (ndf * 4) (Bn 2), LeakyReLU (2 / 10)],
         Sequential [Conv2d (ndf * 4) (ndf * 8) 4 2 1 (Wt 3), BatchNorm2d (ndf * 8) (Bn 3), LeakyReLU (2 / 10)],
         Layer (Conv2d (ndf * 8) 1 4 1 0 (Wt 4))]"
    unfolding Discriminator_init_Inr by auto
  then show ?thesis using assms(1,2) by (simp add: conv_out_def)
qed

lemma Discriminator_main128_shape:
  assumes "0 < nc" and "0 < ndf" and "Discriminator_init im 4 ndf nc gpus Wt Bn = Inr d"
  shows "Sequential_shape (module_shape tr) (Discriminator.main128 d) [N, nc, 128, 128] = Inr [N, 1, 1, 1]"
proof -
  from assms(3) have "Discriminator.main128 d =
        [Sequential [Conv2d nc ndf 4 2 1 (Wt 5), LeakyReLU (2 / 10)],
         Sequential [Conv2d ndf (ndf * 2) 4 2 1 (Wt 6), BatchNorm2d (ndf * 2) (Bn 6), LeakyReLU (2 / 10)],
         Sequential [Conv2d (ndf * 2) (ndf * 4) 4 2 1 (Wt 7), BatchNorm2d (ndf * 4) (Bn 7), LeakyReLU (2 / 10)],
         Sequential [Conv2d (ndf * 4) (ndf * 8) 4 2 1 (Wt 8), BatchNorm2d (ndf * 8) (Bn 8), LeakyReLU (2 / 10)],
         Sequential [Conv2d (ndf * 8) (ndf * 16) 4 2 1 (Wt 9), BatchNorm2d (ndf * 16) (Bn 9), LeakyReLU (2 / 10)],
         Layer (Conv2d (ndf * 16) 1 4 1 0 (Wt 10))]"
    unfolding Discriminator_init_Inr by auto
  then show ?thesis using assms(1,2) by (simp add: conv_out_def)
qed

lemma score_of_map:
  assumes "shape y = [N, 1, 1, 1]"
  shows "\<exists>r. view1 (mean0 y) = Inr r \<and> shape r = [1]
           \<and> elems r [0] = (\<Sum>n\<leftarrow>[0..<N]. elems y [n, 0, 0, 0]) / real N"
  using assms by (simp add: view1_def mean0_def)

text \<open>
  C2 (as amended): for every batch size \<open>N\<close> and in either mode, a discriminator built
  with kernel size 4 and positive widths \<open>nc\<close> and \<open>ndf\<close> (\<open>nc\<close> is 3 by default),
  applied to a tensor of shape \<open>[N, nc, 64, 64]\<close> when its resolution is 64 and of shape
  \<open>[N, nc, 128, 128]\<close> when it is 128, returns a tensor of shape \<open>[1]\<close>. Its pipeline
  ends in a map of shape \<open>[N, 1, 1, 1]\<close>, and for a batch that is not empty the value
  returned is the average of that map over the batch.
\<close>

theorem Discriminator_output:
  assumes "0 < nc" and "0 < ndf"
    and "Discriminator_init 64 4 ndf nc gpus Wt Bn = Inr d64"
    and "Discriminator_init 128 4 ndf nc gpus Wt Bn = Inr d128"
    and "shape x64 = [N, nc, 64, 64]" and "shape x128 = [N, nc, 128, 128]"
  shows "(\<exists>y ms r d'.
            Sequential_forward (module_forward mode) (Discriminator.main64 d64) x64 = Inr (y, ms)
          \<and> shape y = [N, 1, 1, 1]
          \<and> Discriminator_forward (Discriminator_train mode d64) x64 = Inr (r, d')
          \<and> shape r = [1]
          \<and> (0 < N \<longrightarrow> elems r [0] = (\<Sum>n\<leftarrow>[0..<N]. elems y [n, 0, 0, 0]) / real N))
       \<and> (\<exists>y ms r d'.
            Sequential_forward (module_forward mode) (Discriminator.main128 d128) x128 = Inr (y, ms)
          \<and> shape y = [N, 1, 1, 1]
          \<and> Discriminator_forward (Discriminator_train mode d128) x128 = Inr (r, d')
          \<and> shape r = [1]
          \<and> (0 < N \<longrightarrow> elems r [0] = (\<Sum>n\<leftarrow>[0..<N]. elems y [n, 0, 0, 0]) / real N))"
proof (intro conjI)
  have "out_shape (Sequential_forward (module_forward mode) (Discriminator.main64 d64) x64) = Inr [N, 1, 1, 1]"
    unfolding pipeline_forward_shape assms(5) by (rule Discriminator_main64_shape [OF assms(1,2,3)])
  then obtain y ms where run: "Sequential_forward (module_forward mode) (Discriminator.main64 d64) x64 = Inr (y, ms)"
    and sh: "shape y = [N, 1, 1, 1]"
    by (auto dest: out_shape_InrD)
  from score_of_map [OF sh] obtain r where r: "view1 (mean0 y) = Inr r" "shape r = [1]"
    "elems r [0] = (\<Sum>n\<leftarrow>[0..<N]. elems y [n, 0, 0, 0]) / real N" by blast
  have im: "Discriminator.im_size d64 = 64" using assms(3) unfolding Discriminator_init_Inr by auto
  have "Discriminator_forward (Discriminator_train mode d64) x64
      = Inr (r, (Discriminator_train mode d64)\<lparr>Discriminator.main64 := ms\<rparr>)"
    using run r(1) im by (simp add: Discriminator_forward_def Discriminator_train_def)
  with run sh r show "\<exists>y ms r d'.
            Sequential_forward (module_forward mode) (Discriminator.main64 d64) x64 = Inr (y, ms)
          \<and> shape y = [N, 1, 1, 1]
          \<and> Discriminator_forward (Discriminator_train mode d64) x64 = Inr (r, d')
          \<and> shape r = [1]
          \<and> (0 < N \<longrightarrow> elems r [0] = (\<Sum>n\<leftarrow>[0..<N]. elems y [n, 0, 0, 0]) / real N)"
    by blast
next
  have "out_shape (Sequential_forward (module_forward mode) (Discriminator.main128 d128) x128) = Inr [N, 1, 1, 1]"
    unfolding pipeline_forward_shape assms(6) by (rule Discriminator_main128_shape [OF assms(1,2,4)])
  then obtain y ms where run: "Sequential_forward (module_forward mode) (Discriminator.main128 d128) x128 = Inr (y, ms)"
    and sh: "shape y = [N, 1, 1, 1]"
    by (auto dest: out_shape_InrD)
  from score_of_map [OF sh] obtain r where r: "view1 (mean0 y) = Inr r" "shape r = [1]"
    "elems r [0] = (\<Sum>n\<leftarrow>[0..<N]. elems y [n, 0, 0, 0]) / real N" by blast
  have im: "Discriminator.im_size d128 \<noteq> 64" using assms(4) unfolding Discriminator_init_Inr by auto
  have "Discriminator_forward (Discriminator_train mode d128) x128
      = Inr (r, (Discriminator_train mode d128)\<lparr>Discriminator.main128 := ms\<rparr>)"
    using run r(1) im by (simp add: Discriminator_forward_def Discriminator_train_def)
  with run sh r show "\<exists>y ms r d'.
            Sequential_forward (module_forward mode) (Discriminator.main128 d128) x128 = Inr (y, ms)
          \<and> shape y = [N, 1, 1, 1]
          \<and> Discriminator_forward (Discriminator_train mode d128) x128 = Inr (r, d')
          \<and> shape r = [1]
          \<and> (0 < N \<longrightarrow> elems r [0] = (\<Sum>n\<leftarrow>[0..<N]. elems y [n, 0, 0, 0]) / real N)"
    by blast
qed


theorem Discriminator_output_witness:
  "(\<exists>d64 d128. Discriminator_init 64 4 64 3 1 sample_Wt sample_Bn = Inr d64
      \<and> Discriminator_init 128 4 64 3 1 sample_Wt sample_Bn = Inr d128
      \<and> (\<exists>y ms r d'.
            Sequential_forward (module_forward True) (Discriminator.main64 d64) (ones [2, 3, 64, 64]) = Inr (y, ms)
          \<and> shape y = [2, 1, 1, 1]
          \<and> Discriminator_forward (Discriminator_train True d64) (ones [2, 3, 64, 64]) = Inr (r, d')
          \<and> shape r = [1]
          \<and> elems r [0] = (elems y [0, 0, 0, 0] + elems y [1, 0, 0, 0]) / 2)
      \<and> (\<exists>y ms r d'.
            Sequential_forward (module_forward True) (Discriminator.main128 d128) (ones [2, 3, 128, 128]) = Inr (y, ms)
          \<and> shape y = [2, 1, 1, 1]
          \<and> Discriminator_forward (Discriminator_train True d128) (ones [2, 3, 128, 128]) = Inr (r, d')
          \<and> shape r = [1]
          \<and> elems r [0] = (elems y [0, 0, 0, 0] + elems y [1, 0, 0, 0]) / 2))"
proof -
  obtain d64 where a: "Discriminator_init 64 4 64 3 1 sample_Wt sample_Bn = Inr d64"
    unfolding Discriminator_init_Inr by blast
  obtain d128 where b: "Discriminator_init 128 4 64 3 1 sample_Wt sample_Bn = Inr d128"
    unfolding Discriminator_init_Inr by blast
  have up: "[0..<2] = [0, Suc 0]" by code_simp
  show ?thesis
    using a b Discriminator_output [of 3 64 1 sample_Wt sample_Bn d64 d128
        "ones [2, 3, 64, 64]" 2 "ones [2, 3, 128, 128]" True]
    by (simp add: ones_def up)
qed

text \<open>
  With kernel size 3 the pipeline for resolution 64 ends in a map of shape
  \<open>[N, 1, 2, 2]\<close> (the sizes run 64, 32, 16, 8, 4, 2); its batch mean has four elements
  and \<^verbatim>\<open>view(1)\<close> raises.
\<close>

theorem Discriminator_kernel3_counterexample:
  "bind (Discriminator_init 64 3 64 3 1 sample_Wt sample_Bn)
     (\<lambda>d. Discriminator_forward d (ones [2, 3, 64, 64])) = Inl ViewSize"
proof -
  obtain d where d: "Discriminator_init 64 3 64 3 1 sample_Wt sample_Bn = Inr d"
    unfolding Discriminator_init_Inr by blast
  then have m: "Discriminator.main64 d =
        [Sequential [Conv2d 3 64 3 2 1 (sample_Wt 0), LeakyReLU (2 / 10)],
         Sequential [Conv2d 64 (64 * 2) 3 2 1 (sample_Wt 1), BatchNorm2d (64 * 2) (sample_Bn 1), LeakyReLU (2 / 10)],
         Sequential [Conv2d (64 * 2) (64 * 4) 3 2 1 (sample_Wt 2), BatchNorm2d (64 * 4) (sample_Bn 2), LeakyReLU (2 / 10)],
         Sequential [Conv2d (64 * 4) (64 * 8) 3 2 1 (sample_Wt 3), BatchNorm2d (64 * 8) (sample_Bn 3), LeakyReLU (2 / 10)],
         Layer (Conv2d (64 * 8) 1 3 1 0 (sample_Wt 4))]"
    and im: "Discriminator.im_size d = 64" and tr: "Discriminator.training d = True"
    unfolding Discriminator_init_Inr by auto
  have "out_shape (Sequential_forward (module_forward True) (Discriminator.main64 d) (ones [2, 3, 64, 64]))
      = Sequential_shape (module_shape True) (Discriminator.main64 d) [2, 3, 64, 64]"
    by (simp add: pipeline_forward_shape ones_def)
  also have "\<dots> = Inr [2, 1, 2, 2]"
    unfolding m by (simp add: conv_out_def)
  finally obtain y ms where run: "Sequential_forward (module_forward True) (Discriminator.main64 d) (ones [2, 3, 64, 64]) = Inr (y, ms)"
    and sh: "shape y = [2, 1, 2, 2]"
    by (auto dest: out_shape_InrD)
  have "view1 (mean0 y) = Inl ViewSize"
    using sh by (simp add: view1_def mean0_def)
  with run im tr have "Discriminator_forward d (ones [2, 3, 64, 64]) = Inl ViewSize"
    by (simp add: Discriminator_forward_def)
  with d show ?thesis by simp
qed

section \<open>Blocks\<close>

text \<open>The constructor of \<^verbatim>\<open>DeconvBlock\<close> builds the same block whatever \<^verbatim>\<open>bn\<close> is.\<close>

lemma DeconvBlock_init_ignores_bn:
  "DeconvBlock_init n_in n_out ks s p False w b = DeconvBlock_init n_in n_out ks s p True w b"
  by (simp add: DeconvBlock_init_def)

lemma upt4: "[0..<4] = [0, 1, 2, 3]"
  by code_simp

lemma upt2: "[0..<2] = [0, 1]"
  by code_simp

lemma upt1: "[0..<1] = [0]"
  by code_simp

text \<open>
  C3: a deconvolution block should normalize exactly when its flag \<^verbatim>\<open>bn\<close> is true.
  \<^verbatim>\<open>DeconvBlock(1, 1, 4, 1, 0, bn=False)\<close> in training mode, on a batch of two all-one
  inputs: the deconvolution and the activation give all-one maps, and the block returns
  zeros and has counted one batch, so the normalization ran although the flag is false.
\<close>

theorem DeconvBlock_bn_False_still_normalizes:
  "map_sum id (\<lambda>(y, b). (elems y [0, 0, 0, 0], elems y [1, 0, 0, 0], layer_counts (bn b)))
     (DeconvBlock_forward True (DeconvBlock_init 1 1 4 1 0 False (sample_Wt 0) bn_fresh) (ones [2, 1, 1, 1]))
     = Inr (0, 0, [1])
   \<and> map_sum id (\<lambda>(y, l). (elems y [0, 0, 0, 0], elems y [1, 0, 0, 0]))
     (bind (layer_forward True (ConvTranspose2d 1 1 4 1 0 (sample_Wt 0)) (ones [2, 1, 1, 1]))
        (\<lambda>(x1, c). layer_forward True ReLU x1))
     = Inr (1, 1)"
  by (simp add: DeconvBlock_forward_def DeconvBlock_init_def ones_def sample_Wt_def bn_fresh_def
      convT_out_def convT2d_elems_def normalize_def batch_mean_def channel_sum_def per_channel_def
      track_running_stats_def upt4 upt2 upt1)


text \<open>
  C4: in both pipelines of every discriminator the first stage applies no normalization,
  every stage between the first and the last does, and the last is the plain convolution
  to one channel.
\<close>

theorem Discriminator_first_stage_no_norm:
  assumes "Discriminator_init im ks ndf nc gpus Wt Bn = Inr d"
    and "p = Discriminator.main64 d \<or> p = Discriminator.main128 d"
  shows "\<not> normalizes (hd p)
       \<and> list_all normalizes (butlast (tl p))
       \<and> butlast (tl p) \<noteq> []
       \<and> (\<exists>c w. last p = Layer (Conv2d c 1 ks 1 0 w))"
proof -
  from assms(1) have
    "Discriminator.main64 d =
        [Sequential [Conv2d nc ndf ks 2 1 (Wt 0), LeakyReLU (2 / 10)],
         Sequential [Conv2d ndf (ndf * 2) ks 2 1 (Wt 1), BatchNorm2d (ndf * 2) (Bn 1), LeakyReLU (2 / 10)],
         Sequential [Conv2d (ndf * 2) (ndf * 4) ks 2 1 (Wt 2), BatchNorm2d (ndf * 4) (Bn 2), LeakyReLU (2 / 10)],
         Sequential [Conv2d (ndf * 4) (ndf * 8) ks 2 1 (Wt 3), BatchNorm2d (ndf * 8) (Bn 3), LeakyReLU (2 / 10)],
         Layer (Conv2d (ndf * 8) 1 ks 1 0 (Wt 4))]"
    "Discriminator.main128 d =
        [Sequential [Conv2d nc ndf ks 2 1 (Wt 5), LeakyReLU (2 / 10)],
         Sequential [Conv2d ndf (ndf * 2) ks 2 1 (Wt 6), BatchNorm2d (ndf * 2) (Bn 6), LeakyReLU (2 / 10)],
         Sequential [Conv2d (ndf * 2) (ndf * 4) ks 2 1 (Wt 7), BatchNorm2d (ndf * 4) (Bn 7), LeakyReLU (2 / 10)],
         Sequential [Conv2d (ndf * 4) (ndf * 8) ks 2 1 (Wt 8), BatchNorm2d (ndf * 8) (Bn 8), LeakyReLU (2 / 10)],
         Sequential [Conv2d (ndf * 8) (ndf * 16) ks 2 1 (Wt 9), BatchNorm2d (ndf * 16) (Bn 9), LeakyReLU (2 / 10)],
         Layer (Conv2d (ndf * 16) 1 ks 1 0 (Wt 10))]"
    unfolding Discriminator_init_Inr by auto
  with assms(2) show ?thesis by auto
qed

theorem Discriminator_first_stage_no_norm_witness:
  "\<exists>d. Discriminator_init 64 4 64 3 1 sample_Wt sample_Bn = Inr d
     \<and> \<not> normalizes (hd (Discriminator.main64 d))
     \<and> list_all normalizes (butlast (tl (Discriminator.main64 d)))
     \<and> length (butlast (tl (Discriminator.main64 d))) = 3
     \<and> \<not> normalizes (hd (Discriminator.main128 d))
     \<and> list_all normalizes (butlast (tl (Discriminator.main128 d)))
     \<and> length (butlast (tl (Discriminator.main128 d))) = 4"
proof -
  obtain d where d: "Discriminator_init 64 4 64 3 1 sample_Wt sample_Bn = Inr d"
    unfolding Discriminator_init_Inr by blast
  have len: "length (butlast (tl (Discriminator.main64 d))) = 3"
    "length (butlast (tl (Discriminator.main128 d))) = 4"
    using d unfolding Discriminator_init_Inr by auto
  show ?thesis
    using d len
      Discriminator_first_stage_no_norm [OF d, of "Discriminator.main64 d"]
      Discriminator_first_stage_no_norm [OF d, of "Discriminator.main128 d"]
    by blast
qed

text \<open>
  C5: a block of the generator applies its transposed convolution, then the activation,
  then the normalization; a block of the discriminator built with normalization applies
  its convolution, then the normalization, then the leaky activation.
\<close>

theorem block_stage_order:
  "DeconvBlock_forward tr (DeconvBlock_init n_in n_out ks s p flag w b) x =
     bind (layer_forward tr (ConvTranspose2d n_in n_out ks s p w) x) (\<lambda>(x1, c).
     bind (layer_forward tr ReLU x1) (\<lambda>(x2, r).
     bind (layer_forward tr (BatchNorm2d n_out b) x2) (\<lambda>(x3, b').
       Inr (x3, \<lparr>conv = c, bn = b', relu = r\<rparr>))))
   \<and> (conv_block n_in n_out ks s pad True w b = Inr m \<longrightarrow>
        module_forward tr m x =
           bind (layer_forward tr
                   (Conv2d n_in n_out ks s (case pad of None \<Rightarrow> ks div 2 div s | Some q \<Rightarrow> q) w) x)
             (\<lambda>(x1, c).
           bind (layer_forward tr (BatchNorm2d n_out b) x1) (\<lambda>(x2, b').
           bind (layer_forward tr (LeakyReLU (2 / 10)) x2) (\<lambda>(x3, a).
             Inr (x3, Sequential [c, b', a])))))"
proof (intro conjI impI)
  show "DeconvBlock_forward tr (DeconvBlock_init n_in n_out ks s p flag w b) x =
     bind (layer_forward tr (ConvTranspose2d n_in n_out ks s p w) x) (\<lambda>(x1, c).
     bind (layer_forward tr ReLU x1) (\<lambda>(x2, r).
     bind (layer_forward tr (BatchNorm2d n_out b) x2) (\<lambda>(x3, b').
       Inr (x3, \<lparr>conv = c, bn = b', relu = r\<rparr>))))"
    by (simp add: DeconvBlock_forward_def DeconvBlock_init_def)
next
  let ?p = "case pad of None \<Rightarrow> ks div 2 div s | Some q \<Rightarrow> q"
  assume "conv_block n_in n_out ks s pad True w b = Inr m"
  then have m: "m = Sequential [Conv2d n_in n_out ks s ?p w, BatchNorm2d n_out b, LeakyReLU (2 / 10)]"
    by (auto simp: conv_block_def split: option.splits if_splits)
  show "module_forward tr m x =
           bind (layer_forward tr (Conv2d n_in n_out ks s ?p w) x) (\<lambda>(x1, c).
           bind (layer_forward tr (BatchNorm2d n_out b) x1) (\<lambda>(x2, b').
           bind (layer_forward tr (LeakyReLU (2 / 10)) x2) (\<lambda>(x3, a).
             Inr (x3, Sequential [c, b', a]))))"
    unfolding m
    by (auto simp: bind_def split: sum.splits prod.splits)
qed

theorem block_stage_order_witness:
  "DeconvBlock_forward True (DeconvBlock_init 3 64 4 2 1 True (sample_Wt 0) bn_fresh) (ones [2, 3, 64, 64]) =
     bind (layer_forward True (ConvTranspose2d 3 64 4 2 1 (sample_Wt 0)) (ones [2, 3, 64, 64])) (\<lambda>(x1, c).
     bind (layer_forward True ReLU x1) (\<lambda>(x2, r).
     bind (layer_forward True (BatchNorm2d 64 bn_fresh) x2) (\<lambda>(x3, b').
       Inr (x3, \<lparr>conv = c, bn = b', relu = r\<rparr>))))
   \<and> conv_block 3 64 4 2 (Some 1) True (sample_Wt 0) bn_fresh
       = Inr (Sequential [Conv2d 3 64 4 2 1 (sample_Wt 0), BatchNorm2d 64 bn_fresh, LeakyReLU (2 / 10)])
   \<and> module_forward True
        (Sequential [Conv2d 3 64 4 2 1 (sample_Wt 0), BatchNorm2d 64 bn_fresh, LeakyReLU (2 / 10)])
        (ones [2, 3, 64, 64]) =
           bind (layer_forward True (Conv2d 3 64 4 2 1 (sample_Wt 0)) (ones [2, 3, 64, 64])) (\<lambda>(x1, c).
           bind (layer_forward True (BatchNorm2d 64 bn_fresh) x1) (\<lambda>(x2, b').
           bind (layer_forward True (LeakyReLU (2 / 10)) x2) (\<lambda>(x3, a).
             Inr (x3, Sequential [c, b', a]))))"
proof -
  have cb: "conv_block 3 64 4 2 (Some 1) True (sample_Wt 0) bn_fresh
       = Inr (Sequential [Conv2d 3 64 4 2 1 (sample_Wt 0), BatchNorm2d 64 bn_fresh, LeakyReLU (2 / 10)])"
    by (simp add: conv_block_def)
  from block_stage_order [of True 3 64 4 2 1 True "sample_Wt 0" bn_fresh "ones [2, 3, 64, 64]" "Some 1"
      "Sequential [Conv2d 3 64 4 2 1 (sample_Wt 0), BatchNorm2d 64 bn_fresh, LeakyReLU (2 / 10)]"] cb
  show ?thesis by simp
qed

section \<open>The stages of the generator\<close>

text \<open>
  C6 (as amended): with kernel size 4 and positive \<open>nz\<close>, \<open>ngf\<close> and \<open>nc\<close>, in each
  pipeline of the generator the first block takes the 1 by 1 latent tensor of \<open>nz\<close>
  channels to a 4 by 4 map of \<open>ngf * 8\<close> channels (resolution 64) or \<open>ngf * 16\<close>
  channels (resolution 128); every later block doubles height and width and halves the
  number of channels, down to \<open>ngf\<close>; and the final transposed convolution doubles height
  and width once more and maps the \<open>ngf\<close> channels to the \<open>nc\<close> output channels
  (3 by default). Heights and widths are positive, and the batch has any size.
\<close>

theorem Generator_stages:
  assumes "0 < nz" and "0 < ngf" and "0 < nc" and "0 < H" and "0 < W"
  shows
   "out_shape (module_forward tr (Generator.main64 (Generator_init im 4 nz ngf nc gpus Wt Bn) ! 0)
        \<lparr>shape = [N, nz, 1, 1], elems = e\<rparr>) = Inr [N, ngf * 8, 4, 4]
  \<and> out_shape (module_forward tr (Generator.main64 (Generator_init im 4 nz ngf nc gpus Wt Bn) ! 1)
        \<lparr>shape = [N, ngf * 8, H, W], elems = e\<rparr>) = Inr [N, ngf * 4, 2 * H, 2 * W]
  \<and> out_shape (module_forward tr (Generator.main64 (Generator_init im 4 nz ngf nc gpus Wt Bn) ! 2)
        \<lparr>shape = [N, ngf * 4, H, W], elems = e\<rparr>) = Inr [N, ngf * 2, 2 * H, 2 * W]
  \<and> out_shape (module_forward tr (Generator.main64 (Generator_init im 4 nz ngf nc gpus Wt Bn) ! 3)
        \<lparr>shape = [N, ngf * 2, H, W], elems = e\<rparr>) = Inr [N, ngf, 2 * H, 2 * W]
  \<and> out_shape (module_forward tr (Generator.main64 (Generator_init im 4 nz ngf nc gpus Wt Bn) ! 4)
        \<lparr>shape = [N, ngf, H, W], elems = e\<rparr>) = Inr [N, nc, 2 * H, 2 * W]
  \<and> out_shape (module_forward tr (Generator.main128 (Generator_init im 4 nz ngf nc gpus Wt Bn) ! 0)
        \<lparr>shape = [N, nz, 1, 1], elems = e\<rparr>) = Inr [N, ngf * 16, 4, 4]
  \<and> out_shape (module_forward tr (Generator.main128 (Generator_init im 4 nz ngf nc gpus Wt Bn) ! 1)
        \<lparr>shape = [N, ngf * 16, H, W], elems = e\<rparr>) = Inr [N, ngf * 8, 2 * H, 2 * W]
  \<and> out_shape (module_forward tr (Generator.main128 (Generator_init im 4 nz ngf nc gpus Wt Bn) ! 2)
        \<lparr>shape = [N, ngf * 8, H, W], elems = e\<rparr>) = Inr [N, ngf * 4, 2 * H, 2 * W]
  \<and> out_shape (module_forward tr (Generator.main128 (Generator_init im 4 nz ngf nc gpus Wt Bn) ! 3)
        \<lparr>shape = [N, ngf * 4, H, W], elems = e\<rparr>) = Inr [N, ngf * 2, 2 * H, 2 * W]
  \<and> out_shape (module_forward tr (Generator.main128 (Generator_init im 4 nz ngf nc gpus Wt Bn) ! 4)
        \<lparr>shape = [N, ngf * 2, H, W], elems = e\<rparr>) = Inr [N, ngf, 2 * H, 2 * W]
  \<and> out_shape (module_forward tr (Generator.main128 (Generator_init im 4 nz ngf nc gpus Wt Bn) ! 5)
        \<lparr>shape = [N, ngf, H, W], elems = e\<rparr>) = Inr [N, nc, 2 * H, 2 * W]"
proof -
  have dbl: "\<And>h. 0 < h \<Longrightarrow> nat (convT_out h 4 2 1) = 2 * h \<and> \<not> convT_out h 4 2 1 < 1"
    by (simp add: convT_out_def) 
  have odd: "\<And>a b. N * (2 * a) * (2 * b) \<noteq> Suc 0"
    by (metis dvd_triv_left dvd_mult odd_one One_nat_def)
  show ?thesis
    unfolding module_forward_shape
    using assms dbl [of H] dbl [of W]
    by (simp add: Generator_init_def DeconvBlock_init_def DeconvBlock_shape_def odd convT_out_def)
qed


theorem Generator_stages_witness:
  "out_shape (module_forward True (Generator.main64 (Generator_init 64 4 100 64 3 1 sample_Wt sample_Bn) ! 0)
        \<lparr>shape = [2, 100, 1, 1], elems = (\<lambda>idx. 1)\<rparr>) = Inr [2, 512, 4, 4]
  \<and> out_shape (module_forward True (Generator.main64 (Generator_init 64 4 100 64 3 1 sample_Wt sample_Bn) ! 1)
        \<lparr>shape = [2, 512, 4, 4], elems = (\<lambda>idx. 1)\<rparr>) = Inr [2, 256, 8, 8]
  \<and> out_shape (module_forward True (Generator.main64 (Generator_init 64 4 100 64 3 1 sample_Wt sample_Bn) ! 4)
        \<lparr>shape = [2, 64, 4, 4], elems = (\<lambda>idx. 1)\<rparr>) = Inr [2, 3, 8, 8]
  \<and> out_shape (module_forward True (Generator.main128 (Generator_init 64 4 100 64 3 1 sample_Wt sample_Bn) ! 1)
        \<lparr>shape = [2, 1024, 4, 4], elems = (\<lambda>idx. 1)\<rparr>) = Inr [2, 512, 8, 8]"
  using Generator_stages [where nz = 100 and ngf = 64 and nc = 3 and H = 4 and W = 4 and tr = True
      and im = 64 and gpus = 1 and Wt = sample_Wt and Bn = sample_Bn and N = 2 and e = "\<lambda>idx. 1"]
  by simp

text \<open>
  The last upsampling stage maps 64 channels to 3, not to 32; the first takes 1 by 1 to
  4 by 4 and 100 channels to 512; and with kernel size 3 a middle block takes 4 by 4 to
  7 by 7.
\<close>

theorem Generator_stages_counterexample:
  "out_shape (module_forward True (Generator.main64 (Generator_init 64 4 100 64 3 1 sample_Wt sample_Bn) ! 4)
        (ones [2, 64, 32, 32])) = Inr [2, 3, 64, 64]
  \<and> out_shape (module_forward True (Generator.main64 (Generator_init 64 4 100 64 3 1 sample_Wt sample_Bn) ! 0)
        (ones [2, 100, 1, 1])) = Inr [2, 512, 4, 4]
  \<and> out_shape (module_forward True (Generator.main64 (Generator_init 64 3 100 64 3 1 sample_Wt sample_Bn) ! 1)
        (ones [2, 512, 4, 4])) = Inr [2, 256, 7, 7]"
  unfolding module_forward_shape
  by (simp add: Generator_init_def DeconvBlock_init_def DeconvBlock_shape_def convT_out_def ones_def)

section \<open>The base width\<close>

lemma bind_if: "bind (if c then a else b) f = (if c then bind a f else bind b f)"
  by simp

lemma dims4_SomeD: "dims4 sh = Some (N, C, H, W) \<Longrightarrow> sh = [N, C, H, W]"
  by (induction sh rule: dims4.induct) simp_all

lemma Generator_main64_width:
  assumes "0 < ngf" and "0 < ngf'"
  shows "Sequential_shape (module_shape tr) (Generator.main64 (Generator_init im ks nz ngf nc gpus Wt Bn)) sh
       = Sequential_shape (module_shape tr) (Generator.main64 (Generator_init im ks nz ngf' nc gpus Wt' Bn')) sh"
proof (cases "dims4 sh")
  case None
  then show ?thesis
    by (simp add: Generator_init_def DeconvBlock_init_def DeconvBlock_shape_def)
next
  case (Some d)
  obtain N C H W where "d = (N, C, H, W)" by (cases d)
  with Some have sh: "sh = [N, C, H, W]" by (simp add: dims4_SomeD)
  show ?thesis
    unfolding sh using assms
    by (simp add: Generator_init_def DeconvBlock_init_def DeconvBlock_shape_def bind_if)
qed


lemma Generator_main128_width:
  assumes "0 < ngf" and "0 < ngf'"
  shows "Sequential_shape (module_shape tr) (Generator.main128 (Generator_init im ks nz ngf nc gpus Wt Bn)) sh
       = Sequential_shape (module_shape tr) (Generator.main128 (Generator_init im ks nz ngf' nc gpus Wt' Bn')) sh"
proof (cases "dims4 sh")
  case None
  then show ?thesis
    by (simp add: Generator_init_def DeconvBlock_init_def DeconvBlock_shape_def)
next
  case (Some d)
  obtain N C H W where "d = (N, C, H, W)" by (cases d)
  with Some have sh: "sh = [N, C, H, W]" by (simp add: dims4_SomeD)
  show ?thesis
    unfolding sh using assms
    by (simp add: Generator_init_def DeconvBlock_init_def DeconvBlock_shape_def bind_if)
qed

lemma Discriminator_pipelines_width:
  assumes "0 < ndf" and "0 < ndf'"
    and "Discriminator_init im ks ndf nc gpus Wt Bn = Inr d"
    and "Discriminator_init im ks ndf' nc gpus Wt' Bn' = Inr d'"
  shows "Sequential_shape (module_shape tr) (Discriminator.main64 d) sh
       = Sequential_shape (module_shape tr) (Discriminator.main64 d') sh"
    and "Sequential_shape (module_shape tr) (Discriminator.main128 d) sh
       = Sequential_shape (module_shape tr) (Discriminator.main128 d') sh"
proof -
  from assms(3) have d: "d = \<lparr>Discriminator.ngpu = gpus, im_size = im,
      main64 =
        [Sequential [Conv2d nc ndf ks 2 1 (Wt 0), LeakyReLU (2 / 10)],
         Sequential [Conv2d ndf (ndf * 2) ks 2 1 (Wt 1), BatchNorm2d (ndf * 2) (Bn 1), LeakyReLU (2 / 10)],
         Sequential [Conv2d (ndf * 2) (ndf * 4) ks 2 1 (Wt 2), BatchNorm2d (ndf * 4) (Bn 2), LeakyReLU (2 / 10)],
         Sequential [Conv2d (ndf * 4) (ndf * 8) ks 2 1 (Wt 3), BatchNorm2d (ndf * 8) (Bn 3), LeakyReLU (2 / 10)],
         Layer (Conv2d (ndf * 8) 1 ks 1 0 (Wt 4))],
      main128 =
        [Sequential [Conv2d nc ndf ks 2 1 (Wt 5), LeakyReLU (2 / 10)],
         Sequential [Conv2d ndf (ndf * 2) ks 2 1 (Wt 6), BatchNorm2d (ndf * 2) (Bn 6), LeakyReLU (2 / 10)],
         Sequential [Conv2d (ndf * 2) (ndf * 4) ks 2 1 (Wt 7), BatchNorm2d (ndf * 4) (Bn 7), LeakyReLU (2 / 10)],
         Sequential [Conv2d (ndf * 4) (ndf * 8) ks 2 1 (Wt 8), BatchNorm2d (ndf * 8) (Bn 8), LeakyReLU (2 / 10)],
         Sequential [Conv2d (ndf * 8) (ndf * 16) ks 2 1 (Wt 9), BatchNorm2d (ndf * 16) (Bn 9), LeakyReLU (2 / 10)],
         Layer (Conv2d (ndf * 16) 1 ks 1 0 (Wt 10))],
      training = True\<rparr>"
    unfolding Discriminator_init_Inr by simp
  from assms(4) have d': "d' = \<lparr>Discriminator.ngpu = gpus, im_size = im,
      main64 =
        [Sequential [Conv2d nc ndf' ks 2 1 (Wt' 0), LeakyReLU (2 / 10)],
         Sequential [Conv2d ndf' (ndf' * 2) ks 2 1 (Wt' 1), BatchNorm2d (ndf' * 2) (Bn' 1), LeakyReLU (2 / 10)],
         Sequential [Conv2d (ndf' * 2) (ndf' * 4) ks 2 1 (Wt' 2), BatchNorm2d (ndf' * 4) (Bn' 2), LeakyReLU (2 / 10)],
         Sequential [Conv2d (ndf' * 4) (ndf' * 8) ks 2 1 (Wt' 3), BatchNorm2d (ndf' * 8) (Bn' 3), LeakyReLU (2 / 10)],
         Layer (Conv2d (ndf' * 8) 1 ks 1 0 (Wt' 4))],
      main128 =
        [Sequential [Conv2d nc ndf' ks 2 1 (Wt' 5), LeakyReLU (2 / 10)],
         Sequential [Conv2d ndf' (ndf' * 2) ks 2 1 (Wt' 6), BatchNorm2d (ndf' * 2) (Bn' 6), LeakyReLU (2 / 10)],
         Sequential [Conv2d (ndf' * 2) (ndf' * 4) ks 2 1 (Wt' 7), BatchNorm2d (ndf' * 4) (Bn' 7), LeakyReLU (2 / 10)],
         Sequential [Conv2d (ndf' * 4) (ndf' * 8) ks 2 1 (Wt' 8), BatchNorm2d (ndf' * 8) (Bn' 8), LeakyReLU (2 / 10)],
         Sequential [Conv2d (ndf' * 8) (ndf' * 16) ks 2 1 (Wt' 9), BatchNorm2d (ndf' * 16) (Bn' 9), LeakyReLU (2 / 10)],
         Layer (Conv2d (ndf' * 16) 1 ks 1 0 (Wt' 10))],
      training = True\<rparr>"
    unfolding Discriminator_init_Inr by simp
  show "Sequential_shape (module_shape tr) (Discriminator.main64 d) sh
       = Sequential_shape (module_shape tr) (Discriminator.main64 d') sh"
  proof (cases "dims4 sh")
    case None
    then show ?thesis unfolding d d' by simp
  next
    case (Some q)
    obtain N C H W where "q = (N, C, H, W)" by (cases q)
    with Some have sh: "sh = [N, C, H, W]" by (simp add: dims4_SomeD)
    show ?thesis
      unfolding sh d d' using assms(1,2) by (simp add: bind_if)
  qed
  show "Sequential_shape (module_shape tr) (Discriminator.main128 d) sh
       = Sequential_shape (module_shape tr) (Discriminator.main128 d') sh"
  proof (cases "dims4 sh")
    case None
    then show ?thesis unfolding d d' by simp
  next
    case (Some q)
    obtain N C H W where "q = (N, C, H, W)" by (cases q)
    with Some have sh: "sh = [N, C, H, W]" by (simp add: dims4_SomeD)
    show ?thesis
      unfolding sh d d' using assms(1,2) by (simp add: bind_if)
  qed
qed

lemma Generator_forward_shape:
  "out_shape (Generator_forward g x) =
     Sequential_shape (module_shape (Generator.training g))
       (if Generator.im_size g = 64 then Generator.main64 g else Generator.main128 g) (shape x)"
  by (simp add: Generator_forward_def out_shape_bind pipeline_forward_shape)

lemma shape_mean0: "shape (mean0 y) = tl (shape y)"
  by (simp add: mean0_def split: list.splits)

lemma score_out_shape:
  "out_shape (bind r (\<lambda>(y, ms). bind (view1 (mean0 y)) (\<lambda>v. Inr (v, f ms)))) = bind (out_shape r) score_shape"
proof (cases r)
  case (Inl e)
  then show ?thesis by simp
next
  case (Inr q)
  obtain y ms where "q = (y, ms)" by (cases q)
  with Inr show ?thesis
    by (simp add: view1_def shape_mean0 score_shape_def)
qed

lemma Discriminator_forward_shape:
  "out_shape (Discriminator_forward d x) =
     bind (Sequential_shape (module_shape (Discriminator.training d))
       (if Discriminator.im_size d = 64 then Discriminator.main64 d else Discriminator.main128 d) (shape x))
       score_shape"
  by (simp add: Discriminator_forward_def score_out_shape pipeline_forward_shape)

lemma Generator_internal_channels:
  "internal_channels (Generator.main64 (Generator_init im ks nz ngf nc gpus Wt Bn))
     = map (\<lambda>m. m * ngf) [8, 8, 8, 4, 4, 4, 2, 2, 2, 1, 1, 1]"
  "internal_channels (Generator.main128 (Generator_init im ks nz ngf nc gpus Wt Bn))
     = map (\<lambda>m. m * ngf) [16, 16, 16, 8, 8, 8, 4, 4, 4, 2, 2, 2, 1, 1, 1]"
  by (simp_all add: internal_channels_def Generator_init_def DeconvBlock_init_def)

lemma Discriminator_internal_channels:
  assumes "Discriminator_init im ks ndf nc gpus Wt Bn = Inr d"
  shows "internal_channels (Discriminator.main64 d)
           = map (\<lambda>m. m * ndf) [1, 1, 2, 2, 2, 4, 4, 4, 8, 8, 8]"
    and "internal_channels (Discriminator.main128 d)
           = map (\<lambda>m. m * ndf) [1, 1, 2, 2, 2, 4, 4, 4, 8, 8, 8, 16, 16, 16]"
proof -
  from assms have "Discriminator.main64 d =
        [Sequential [Conv2d nc ndf ks 2 1 (Wt 0), LeakyReLU (2 / 10)],
         Sequential [Conv2d ndf (ndf * 2) ks 2 1 (Wt 1), BatchNorm2d (ndf * 2) (Bn 1), LeakyReLU (2 / 10)],
         Sequential [Conv2d (ndf * 2) (ndf * 4) ks 2 1 (Wt 2), BatchNorm2d (ndf * 4) (Bn 2), LeakyReLU (2 / 10)],
         Sequential [Conv2d (ndf * 4) (ndf * 8) ks 2 1 (Wt 3), BatchNorm2d (ndf * 8) (Bn 3), LeakyReLU (2 / 10)],
         Layer (Conv2d (ndf * 8) 1 ks 1 0 (Wt 4))]"
    unfolding Discriminator_init_Inr by auto
  then show "internal_channels (Discriminator.main64 d)
           = map (\<lambda>m. m * ndf) [1, 1, 2, 2, 2, 4, 4, 4, 8, 8, 8]"
    by (simp add: internal_channels_def)
  from assms have "Discriminator.main128 d =
        [Sequential [Conv2d nc ndf ks 2 1 (Wt 5), LeakyReLU (2 / 10)],
         Sequential [Conv2d ndf (ndf * 2) ks 2 1 (Wt 6), BatchNorm2d (ndf * 2) (Bn 6), LeakyReLU (2 / 10)],
         Sequential [Conv2d (ndf * 2) (ndf * 4) ks 2 1 (Wt 7), BatchNorm2d (ndf * 4) (Bn 7), LeakyReLU (2 / 10)],
         Sequential [Conv2d (ndf * 4) (ndf * 8) ks 2 1 (Wt 8), BatchNorm2d (ndf * 8) (Bn 8), LeakyReLU (2 / 10)],
         Sequential [Conv2d (ndf * 8) (ndf * 16) ks 2 1 (Wt 9), BatchNorm2d (ndf * 16) (Bn 9), LeakyReLU (2 / 10)],
         Layer (Conv2d (ndf * 16) 1 ks 1 0 (Wt 10))]"
    unfolding Discriminator_init_Inr by auto
  then show "internal_channels (Discriminator.main128 d)
           = map (\<lambda>m. m * ndf) [1, 1, 2, 2, 2, 4, 4, 4, 8, 8, 8, 16, 16, 16]"
    by (simp add: internal_channels_def)
qed

lemma Generator_width_shape:
  assumes "0 < ngf" and "0 < ngf'" and "shape x = shape x'"
  shows "out_shape (Generator_forward (Generator_train mode (Generator_init im ks nz ngf nc gpus Wt Bn)) x)
       = out_shape (Generator_forward (Generator_train mode (Generator_init im ks nz ngf' nc gpus Wt' Bn')) x')"
proof -
  have g: "Generator.training (Generator_train mode (Generator_init im ks nz w nc gpus A B)) = mode"
    "Generator.im_size (Generator_train mode (Generator_init im ks nz w nc gpus A B)) = im"
    "Generator.main64 (Generator_train mode (Generator_init im ks nz w nc gpus A B))
       = Generator.main64 (Generator_init im ks nz w nc gpus A B)"
    "Generator.main128 (Generator_train mode (Generator_init im ks nz w nc gpus A B))
       = Generator.main128 (Generator_init im ks nz w nc gpus A B)" for w A B
    by (simp_all add: Generator_train_def Generator_init_def)
  show ?thesis
    unfolding Generator_forward_shape g assms(3)
    by (simp add: Generator_main64_width [OF assms(1,2), where Wt' = Wt' and Bn' = Bn']
        Generator_main128_width [OF assms(1,2), where Wt' = Wt' and Bn' = Bn'])
qed

lemma Discriminator_width_shape:
  assumes "0 < ndf" and "0 < ndf'"
    and "Discriminator_init im ks ndf nc gpus Wt Bn = Inr d"
    and "Discriminator_init im ks ndf' nc gpus Wt' Bn' = Inr d'"
    and "shape x = shape x'"
  shows "out_shape (Discriminator_forward (Discriminator_train mode d) x)
       = out_shape (Discriminator_forward (Discriminator_train mode d') x')"
proof -
  have i: "Discriminator.im_size d = im" "Discriminator.im_size d' = im"
    using assms(3,4) unfolding Discriminator_init_Inr by auto
  show ?thesis
    unfolding Discriminator_forward_shape assms(5)
    using Discriminator_pipelines_width [OF assms(1,2,3,4), of mode "shape x'"] i
    by (simp add: Discriminator_train_def)
qed

text \<open>
  C7: the internal channel counts of both pipelines of a generator are fixed multiples of
  \<open>ngf\<close>, and those of a discriminator fixed multiples of \<open>ndf\<close>, so two instances
  that differ in the base width only have internal channel counts in the ratio of their
  widths; and for inputs of the same shape their forward calls return outputs of the same
  shape (or raise the same exception). The widths are positive.
\<close>

theorem base_width_scaling:
  assumes "0 < ngf" and "0 < ngf'" and "0 < ndf" and "0 < ndf'"
    and "Discriminator_init im ks ndf nc gpus Wt Bn = Inr d"
    and "Discriminator_init im ks ndf' nc gpus Wt' Bn' = Inr d'"
    and "shape z = shape z'" and "shape x = shape x'"
  shows "internal_channels (Generator.main64 (Generator_init im ks nz ngf nc gpus Wt Bn))
           = map (\<lambda>m. m * ngf) [8, 8, 8, 4, 4, 4, 2, 2, 2, 1, 1, 1]
       \<and> internal_channels (Generator.main64 (Generator_init im ks nz ngf' nc gpus Wt' Bn'))
           = map (\<lambda>m. m * ngf') [8, 8, 8, 4, 4, 4, 2, 2, 2, 1, 1, 1]
       \<and> internal_channels (Generator.main128 (Generator_init im ks nz ngf nc gpus Wt Bn))
           = map (\<lambda>m. m * ngf) [16, 16, 16, 8, 8, 8, 4, 4, 4, 2, 2, 2, 1, 1, 1]
       \<and> internal_channels (Generator.main128 (Generator_init im ks nz ngf' nc gpus Wt' Bn'))
           = map (\<lambda>m. m * ngf') [16, 16, 16, 8, 8, 8, 4, 4, 4, 2, 2, 2, 1, 1, 1]
       \<and> internal_channels (Discriminator.main64 d)
           = map (\<lambda>m. m * ndf) [1, 1, 2, 2, 2, 4, 4, 4, 8, 8, 8]
       \<and> internal_channels (Discriminator.main64 d')
           = map (\<lambda>m. m * ndf') [1, 1, 2, 2, 2, 4, 4, 4, 8, 8, 8]
       \<and> internal_channels (Discriminator.main128 d)
           = map (\<lambda>m. m * ndf) [1, 1, 2, 2, 2, 4, 4, 4, 8, 8, 8, 16, 16, 16]
       \<and> internal_channels (Discriminator.main128 d')
           = map (\<lambda>m. m * ndf') [1, 1, 2, 2, 2, 4, 4, 4, 8, 8, 8, 16, 16, 16]
       \<and> out_shape (Generator_forward (Generator_train mode (Generator_init im ks nz ngf nc gpus Wt Bn)) z)
           = out_shape (Generator_forward (Generator_train mode (Generator_init im ks nz ngf' nc gpus Wt' Bn')) z')
       \<and> out_shape (Discriminator_forward (Discriminator_train mode d) x)
           = out_shape (Discriminator_forward (Discriminator_train mode d') x')"
  using Generator_internal_channels [of im ks nz ngf nc gpus Wt Bn]
    Generator_internal_channels [of im ks nz ngf' nc gpus Wt' Bn']
    Discriminator_internal_channels [OF assms(5)] Discriminator_internal_channels [OF assms(6)]
    Generator_width_shape [OF assms(1,2,7), of mode im ks nz nc gpus Wt Bn Wt' Bn']
    Discriminator_width_shape [OF assms(3,4,5,6,8), of mode]
  by blast

theorem base_width_scaling_witness:
  "\<exists>d d'. Discriminator_init 64 4 64 3 1 sample_Wt sample_Bn = Inr d
     \<and> Discriminator_init 64 4 128 3 1 sample_Wt sample_Bn = Inr d'
     \<and> internal_channels (Generator.main64 (Generator_init 64 4 100 64 3 1 sample_Wt sample_Bn))
           = [512, 512, 512, 256, 256, 256, 128, 128, 128, 64, 64, 64]
     \<and> internal_channels (Generator.main64 (Generator_init 64 4 100 128 3 1 sample_Wt sample_Bn))
           = [1024, 1024, 1024, 512, 512, 512, 256, 256, 256, 128, 128, 128]
     \<and> internal_channels (Discriminator.main64 d) = [64, 64, 128, 128, 128, 256, 256, 256, 512, 512, 512]
     \<and> internal_channels (Discriminator.main64 d')
           = [128, 128, 256, 256, 256, 512, 512, 512, 1024, 1024, 1024]
     \<and> out_shape (Generator_forward (Generator_train True (Generator_init 64 4 100 64 3 1 sample_Wt sample_Bn))
            (ones [2, 100, 1, 1]))
         = out_shape (Generator_forward (Generator_train True (Generator_init 64 4 100 128 3 1 sample_Wt sample_Bn))
            (ones [2, 100, 1, 1]))
     \<and> out_shape (Discriminator_forward (Discriminator_train True d) (ones [2, 3, 64, 64]))
         = out_shape (Discriminator_forward (Discriminator_train True d') (ones [2, 3, 64, 64]))"
proof -
  obtain d where a: "Discriminator_init 64 4 64 3 1 sample_Wt sample_Bn = Inr d"
    unfolding Discriminator_init_Inr by blast
  obtain d' where b: "Discriminator_init 64 4 128 3 1 sample_Wt sample_Bn = Inr d'"
    unfolding Discriminator_init_Inr by blast
  have p: "(0::nat) < 64" "(0::nat) < 128"
    by simp_all
  have e: "shape (ones [2, 100, 1, 1]) = shape (ones [2, 100, 1, 1])"
    "shape (ones [2, 3, 64, 64]) = shape (ones [2, 3, 64, 64])"
    by simp_all
  from base_width_scaling [OF p p a b e, of 100 True]
  show ?thesis using a b by simp
qed

section \<open>What a forward call leaves behind\<close>

lemma out_tensor_simps [simp]:
  "out_tensor (Inl e) = Inl e" "out_tensor (Inr (y, m)) = Inr y"
  by (simp_all add: out_tensor_def)

lemma out_tensor_InrD: "out_tensor r = Inr y \<Longrightarrow> \<exists>m. r = Inr (y, m)"
  by (cases r) (auto simp: out_tensor_def)

lemma out_tensor_bind: "out_tensor (bind r (\<lambda>(y, m). Inr (y, g m))) = out_tensor r"
  by (cases r) auto

subsection \<open>One layer\<close>

lemma layer_forward_BatchNorm2d:
  assumes "layer_forward tr (BatchNorm2d nf P) x = Inr (y, l')"
  shows "l' = BatchNorm2d nf (if tr then track_running_stats P x else P)"
proof (cases "dims4 (shape x)")
  case None
  with assms show ?thesis by simp
next
  case (Some d)
  obtain N C H W where d: "d = (N, C, H, W)" by (cases d)
  from assms Some d show ?thesis
    by (simp split: if_splits)
qed

lemma layer_forward_other:
  assumes "layer_forward tr l x = Inr (y, l')" and "\<not> is_norm l"
  shows "l' = l"
proof (cases "dims4 (shape x)")
  case None
  with assms show ?thesis by (cases l) simp_all
next
  case (Some d)
  obtain N C H W where d: "d = (N, C, H, W)" by (cases d)
  from assms Some d show ?thesis
    by (cases l) (simp_all split: if_splits)
qed

lemma layer_forward_reset:
  assumes "layer_forward tr l x = Inr (y, l')"
  shows "reset_running_stats l' = reset_running_stats l"
proof (cases "is_norm l")
  case True
  then obtain nf P where l: "l = BatchNorm2d nf P" by (cases l) simp_all
  from layer_forward_BatchNorm2d [OF assms [unfolded l]] l show ?thesis
    by (simp add: track_running_stats_def)
next
  case False
  from layer_forward_other [OF assms False] show ?thesis by simp
qed

lemma layer_forward_eval:
  assumes "layer_forward False l x = Inr (y, l')"
  shows "l' = l"
proof (cases "is_norm l")
  case True
  then obtain nf P where l: "l = BatchNorm2d nf P" by (cases l) simp_all
  from layer_forward_BatchNorm2d [OF assms [unfolded l]] l show ?thesis by simp
next
  case False
  from layer_forward_other [OF assms False] show ?thesis .
qed

lemma layer_forward_counts:
  assumes "layer_forward True l x = Inr (y, l')"
  shows "layer_counts l' = map Suc (layer_counts l)"
proof (cases "is_norm l")
  case True
  then obtain nf P where l: "l = BatchNorm2d nf P" by (cases l) simp_all
  from layer_forward_BatchNorm2d [OF assms [unfolded l]] l show ?thesis
    by (simp add: track_running_stats_def)
next
  case False
  from layer_forward_other [OF assms False] have "l' = l" .
  with False show ?thesis by (cases l) simp_all
qed

lemma normalize_cong:
  assumes "bn_weight P = bn_weight Q" and "bn_bias P = bn_bias Q"
  shows "normalize P mu var x = normalize Q mu var x"
  unfolding normalize_def assms by (rule refl)

lemma reset_BatchNorm2d_eq:
  assumes "reset_running_stats (BatchNorm2d nf P) = reset_running_stats (BatchNorm2d nf' Q)"
  shows "nf = nf'" and "bn_weight P = bn_weight Q" and "bn_bias P = bn_bias Q"
proof -
  from assms have e: "P\<lparr>running_mean := (\<lambda>c. 0), running_var := (\<lambda>c. 1), num_batches_tracked := 0\<rparr>
      = Q\<lparr>running_mean := (\<lambda>c. 0), running_var := (\<lambda>c. 1), num_batches_tracked := 0\<rparr>"
    and n: "nf = nf'" by simp_all
  show "nf = nf'" by (rule n)
  from arg_cong [OF e, of bn_weight] show "bn_weight P = bn_weight Q" by simp
  from arg_cong [OF e, of bn_bias] show "bn_bias P = bn_bias Q" by simp
qed

lemma is_norm_reset: "is_norm (reset_running_stats l) = is_norm l"
  by (cases l) simp_all

lemma reset_other: "\<not> is_norm l \<Longrightarrow> reset_running_stats l = l"
  by (cases l) simp_all

lemma layer_forward_train_out:
  assumes "reset_running_stats l1 = reset_running_stats l2"
  shows "out_tensor (layer_forward True l1 x) = out_tensor (layer_forward True l2 x)"
proof (cases "is_norm l1")
  case True
  then obtain nf P where l1: "l1 = BatchNorm2d nf P" by (cases l1) simp_all
  from True have "is_norm l2"
    using is_norm_reset [of l1] is_norm_reset [of l2] assms by simp
  then obtain nf' Q where l2: "l2 = BatchNorm2d nf' Q" by (cases l2) simp_all
  note eqs = reset_BatchNorm2d_eq [OF assms [unfolded l1 l2]]
  have n: "normalize P mu var x = normalize Q mu var x" for mu var
    by (rule normalize_cong [OF eqs(2,3)])
  show ?thesis
  proof (cases "dims4 (shape x)")
    case None
    then show ?thesis unfolding l1 l2 by simp
  next
    case (Some d)
    obtain N C H W where "d = (N, C, H, W)" by (cases d)
    with Some show ?thesis unfolding l1 l2 by (simp add: eqs(1) n)
  qed
next
  case False
  then have "\<not> is_norm l2"
    using is_norm_reset [of l1] is_norm_reset [of l2] assms by simp
  with False assms have "l1 = l2" by (simp add: reset_other)
  then show ?thesis by simp
qed

lemma bind_InrD: "bind r f = Inr v \<Longrightarrow> \<exists>u. r = Inr u \<and> f u = Inr v"
  by (cases r) simp_all

lemma out_tensor_bind2:
  assumes "\<And>y m. out_tensor (k y m) = h y"
  shows "out_tensor (bind r (\<lambda>(y, m). k y m)) = bind (out_tensor r) h"
proof (cases r)
  case (Inl e)
  then show ?thesis by simp
next
  case (Inr q)
  obtain y m where "q = (y, m)" by (cases q)
  with Inr assms [of y m] show ?thesis by simp
qed

subsection \<open>A sequence of members\<close>

lemma Sequential_forward_ConsD:
  assumes "Sequential_forward f (m # ms) x = Inr (z, ms')"
  shows "\<exists>y m' ms''. f m x = Inr (y, m') \<and> Sequential_forward f ms y = Inr (z, ms'') \<and> ms' = m' # ms''"
proof -
  from assms obtain u where u: "f m x = Inr u"
    and 1: "(case u of (y, m') \<Rightarrow> bind (Sequential_forward f ms y) (\<lambda>(z, ms'). Inr (z, m' # ms'))) = Inr (z, ms')"
    by (auto dest: bind_InrD)
  obtain y m' where yp: "u = (y, m')" by (cases u)
  from 1 yp obtain v where v: "Sequential_forward f ms y = Inr v"
    and 2: "(case v of (z, ms') \<Rightarrow> Inr (z, m' # ms')) = (Inr (z, ms') :: error + tensor \<times> 'a list)"
    by (auto dest: bind_InrD)
  obtain z' ms'' where "v = (z', ms'')" by (cases v)
  with 2 v u yp show ?thesis by simp
qed

lemma Sequential_forward_preserves:
  assumes "\<And>m x y m'. f m x = Inr (y, m') \<Longrightarrow> R m' = R m"
    and "Sequential_forward f ms x = Inr (z, ms')"
  shows "map R ms' = map R ms"
  using assms(2)
proof (induction ms arbitrary: x ms')
  case Nil
  then show ?case by simp
next
  case (Cons m ms)
  from Sequential_forward_ConsD [OF Cons.prems] obtain y m' ms''
    where "f m x = Inr (y, m')" "Sequential_forward f ms y = Inr (z, ms'')" "ms' = m' # ms''"
    by blast
  with assms(1) [of m x y m'] Cons.IH [of y ms''] show ?case by simp
qed

lemma Sequential_forward_counts:
  assumes "\<And>m x y m'. f m x = Inr (y, m') \<Longrightarrow> C m' = map Suc (C m)"
    and "Sequential_forward f ms x = Inr (z, ms')"
  shows "concat (map C ms') = map Suc (concat (map C ms))"
  using assms(2)
proof (induction ms arbitrary: x ms')
  case Nil
  then show ?case by simp
next
  case (Cons m ms)
  from Sequential_forward_ConsD [OF Cons.prems] obtain y m' ms''
    where "f m x = Inr (y, m')" "Sequential_forward f ms y = Inr (z, ms'')" "ms' = m' # ms''"
    by blast
  with assms(1) [of m x y m'] Cons.IH [of y ms''] show ?case by simp
qed

lemma out_tensor_Sequential_Cons:
  "out_tensor (Sequential_forward f (m # ms) x)
     = bind (out_tensor (f m x)) (\<lambda>y. out_tensor (Sequential_forward f ms y))"
proof -
  have "out_tensor (bind (Sequential_forward f ms y) (\<lambda>(z, ms'). Inr (z, m' # ms')))
      = out_tensor (Sequential_forward f ms y)" for y m'
    by (rule out_tensor_bind)
  then show ?thesis
    by (simp add: out_tensor_bind2)
qed

lemma Sequential_forward_out_cong:
  assumes "\<And>m1 m2 x. R m1 = R m2 \<Longrightarrow> out_tensor (f m1 x) = out_tensor (f m2 x)"
    and "map R ms1 = map R ms2"
  shows "out_tensor (Sequential_forward f ms1 x) = out_tensor (Sequential_forward f ms2 x)"
  using assms(2)
proof (induction ms1 arbitrary: ms2 x)
  case Nil
  then show ?case by simp
next
  case (Cons m1 ms1)
  then obtain m2 ms2' where ms2: "ms2 = m2 # ms2'" and r: "R m1 = R m2" and rest: "map R ms1 = map R ms2'"
    by (cases ms2) auto
  have "out_tensor (Sequential_forward f ms1 y) = out_tensor (Sequential_forward f ms2' y)" for y
    by (rule Cons.IH [OF rest])
  with assms(1) [OF r, of x] show ?case
    unfolding ms2 out_tensor_Sequential_Cons by simp
qed

subsection \<open>One block\<close>

lemma DeconvBlock_forward_InrD:
  assumes "DeconvBlock_forward tr b x = Inr (y, b')"
  shows "\<exists>x1 c x2 r bb. layer_forward tr (conv b) x = Inr (x1, c)
           \<and> layer_forward tr (relu b) x1 = Inr (x2, r)
           \<and> layer_forward tr (bn b) x2 = Inr (y, bb)
           \<and> b' = \<lparr>conv = c, bn = bb, relu = r\<rparr>"
proof -
  from assms [unfolded DeconvBlock_forward_def] obtain u1 where u1: "layer_forward tr (conv b) x = Inr u1"
    and 1: "(case u1 of (x1, conv') \<Rightarrow>
       bind (layer_forward tr (relu b) x1) (\<lambda>(x2, relu').
         if truthy (bn b)
         then bind (layer_forward tr (bn b) x2) (\<lambda>(x3, bn'). Inr (x3, \<lparr>conv = conv', bn = bn', relu = relu'\<rparr>))
         else Inr (x2, \<lparr>conv = conv', bn = bn b, relu = relu'\<rparr>))) = Inr (y, b')"
    by (auto dest: bind_InrD)
  obtain x1 c where p1: "u1 = (x1, c)" by (cases u1)
  from 1 p1 obtain u2 where u2: "layer_forward tr (relu b) x1 = Inr u2"
    and 2: "(case u2 of (x2, relu') \<Rightarrow>
         bind (layer_forward tr (bn b) x2) (\<lambda>(x3, bn'). Inr (x3, \<lparr>conv = c, bn = bn', relu = relu'\<rparr>)))
         = Inr (y, b')"
    by (auto dest: bind_InrD)
  obtain x2 r where p2: "u2 = (x2, r)" by (cases u2)
  from 2 p2 obtain u3 where u3: "layer_forward tr (bn b) x2 = Inr u3"
    and 3: "(case u3 of (x3, bn') \<Rightarrow> Inr (x3, \<lparr>conv = c, bn = bn', relu = r\<rparr>))
         = (Inr (y, b') :: error + tensor \<times> DeconvBlock)"
    by (auto dest: bind_InrD)
  obtain x3 bb where "u3 = (x3, bb)" by (cases u3)
  with 3 u1 p1 u2 p2 u3 show ?thesis by simp
qed

lemma out_tensor_DeconvBlock:
  "out_tensor (DeconvBlock_forward tr b x)
     = bind (out_tensor (layer_forward tr (conv b) x)) (\<lambda>x1.
       bind (out_tensor (layer_forward tr (relu b) x1)) (\<lambda>x2.
         out_tensor (layer_forward tr (bn b) x2)))"
proof -
  have 3: "out_tensor (bind (layer_forward tr (bn b) x2) (\<lambda>(x3, bn'). Inr (x3, \<lparr>conv = c, bn = bn', relu = r\<rparr>)))
      = out_tensor (layer_forward tr (bn b) x2)" for x2 c r
    by (rule out_tensor_bind)
  have 2: "out_tensor (bind (layer_forward tr (relu b) x1) (\<lambda>(x2, relu').
         if truthy (bn b)
         then bind (layer_forward tr (bn b) x2) (\<lambda>(x3, bn'). Inr (x3, \<lparr>conv = c, bn = bn', relu = relu'\<rparr>))
         else Inr (x2, \<lparr>conv = c, bn = bn b, relu = relu'\<rparr>)))
      = bind (out_tensor (layer_forward tr (relu b) x1)) (\<lambda>x2. out_tensor (layer_forward tr (bn b) x2))" for x1 c
    by (rule out_tensor_bind2) (simp add: 3)
  show ?thesis
    unfolding DeconvBlock_forward_def
    by (rule out_tensor_bind2) (rule 2)
qed

lemma bind_wrap_InrD:
  assumes "bind r (\<lambda>(y, a). Inr (y, g a)) = Inr (z, m')"
  shows "\<exists>a. r = Inr (z, a) \<and> m' = g a"
proof (cases r)
  case (Inl e)
  with assms show ?thesis by simp
next
  case (Inr q)
  obtain y a where "q = (y, a)" by (cases q)
  with Inr assms show ?thesis by simp
qed

subsection \<open>One member of a pipeline\<close>

lemma module_forward_reset:
  assumes "module_forward tr m x = Inr (y, m')"
  shows "reset_module m' = reset_module m"
proof (cases m)
  case (Layer l)
  with assms obtain l' where "layer_forward tr l x = Inr (y, l')" "m' = Layer l'"
    by (auto dest: bind_wrap_InrD)
  with Layer layer_forward_reset [of tr l x y l'] show ?thesis by simp
next
  case (Deconv b)
  with assms obtain b' where run: "DeconvBlock_forward tr b x = Inr (y, b')" and m': "m' = Deconv b'"
    by (auto dest: bind_wrap_InrD)
  from DeconvBlock_forward_InrD [OF run] obtain x1 c x2 r bb where
    "layer_forward tr (conv b) x = Inr (x1, c)" "layer_forward tr (relu b) x1 = Inr (x2, r)"
    "layer_forward tr (bn b) x2 = Inr (y, bb)" "b' = \<lparr>conv = c, bn = bb, relu = r\<rparr>"
    by blast
  with Deconv m' layer_forward_reset [of tr "conv b" x x1 c] layer_forward_reset [of tr "relu b" x1 x2 r]
    layer_forward_reset [of tr "bn b" x2 y bb]
  show ?thesis by simp
next
  case (Sequential ls)
  with assms obtain ls' where run: "Sequential_forward (layer_forward tr) ls x = Inr (y, ls')"
    and m': "m' = Sequential ls'"
    by (auto dest: bind_wrap_InrD)
  from Sequential_forward_preserves [of "layer_forward tr" reset_running_stats, OF layer_forward_reset run]
  show ?thesis using Sequential m' by simp
qed

lemma module_forward_eval:
  assumes "module_forward False m x = Inr (y, m')"
  shows "m' = m"
proof (cases m)
  case (Layer l)
  with assms obtain l' where "layer_forward False l x = Inr (y, l')" "m' = Layer l'"
    by (auto dest: bind_wrap_InrD)
  with Layer layer_forward_eval [of l x y l'] show ?thesis by simp
next
  case (Deconv b)
  with assms obtain b' where run: "DeconvBlock_forward False b x = Inr (y, b')" and m': "m' = Deconv b'"
    by (auto dest: bind_wrap_InrD)
  from DeconvBlock_forward_InrD [OF run] obtain x1 c x2 r bb where
    "layer_forward False (conv b) x = Inr (x1, c)" "layer_forward False (relu b) x1 = Inr (x2, r)"
    "layer_forward False (bn b) x2 = Inr (y, bb)" "b' = \<lparr>conv = c, bn = bb, relu = r\<rparr>"
    by blast
  with Deconv m' layer_forward_eval [of "conv b" x x1 c] layer_forward_eval [of "relu b" x1 x2 r]
    layer_forward_eval [of "bn b" x2 y bb]
  show ?thesis by simp
next
  case (Sequential ls)
  with assms obtain ls' where run: "Sequential_forward (layer_forward False) ls x = Inr (y, ls')"
    and m': "m' = Sequential ls'"
    by (auto dest: bind_wrap_InrD)
  from Sequential_forward_preserves [of "layer_forward False" "\<lambda>l. l", OF layer_forward_eval run]
  show ?thesis using Sequential m' by simp
qed

lemma module_forward_counts:
  assumes "module_forward True m x = Inr (y, m')"
  shows "module_counts m' = map Suc (module_counts m)"
proof (cases m)
  case (Layer l)
  with assms obtain l' where "layer_forward True l x = Inr (y, l')" "m' = Layer l'"
    by (auto dest: bind_wrap_InrD)
  with Layer layer_forward_counts [of l x y l'] show ?thesis by simp
next
  case (Deconv b)
  with assms obtain b' where run: "DeconvBlock_forward True b x = Inr (y, b')" and m': "m' = Deconv b'"
    by (auto dest: bind_wrap_InrD)
  from DeconvBlock_forward_InrD [OF run] obtain x1 c x2 r bb where
    "layer_forward True (conv b) x = Inr (x1, c)" "layer_forward True (relu b) x1 = Inr (x2, r)"
    "layer_forward True (bn b) x2 = Inr (y, bb)" "b' = \<lparr>conv = c, bn = bb, relu = r\<rparr>"
    by blast
  with Deconv m' layer_forward_counts [of "conv b" x x1 c] layer_forward_counts [of "relu b" x1 x2 r]
    layer_forward_counts [of "bn b" x2 y bb]
  show ?thesis by simp
next
  case (Sequential ls)
  with assms obtain ls' where run: "Sequential_forward (layer_forward True) ls x = Inr (y, ls')"
    and m': "m' = Sequential ls'"
    by (auto dest: bind_wrap_InrD)
  from Sequential_forward_counts [of "layer_forward True" layer_counts, OF layer_forward_counts run]
  show ?thesis using Sequential m' by simp
qed

lemma module_forward_train_out:
  assumes "reset_module m1 = reset_module m2"
  shows "out_tensor (module_forward True m1 x) = out_tensor (module_forward True m2 x)"
proof (cases m1)
  case (Layer l1)
  with assms obtain l2 where m2: "m2 = Layer l2" and "reset_running_stats l1 = reset_running_stats l2"
    by (cases m2) simp_all
  with Layer layer_forward_train_out [of l1 l2 x] show ?thesis
    by (simp add: out_tensor_bind)
next
  case (Deconv b1)
  with assms obtain b2 where m2: "m2 = Deconv b2"
    and c: "reset_running_stats (conv b1) = reset_running_stats (conv b2)"
    and r: "reset_running_stats (relu b1) = reset_running_stats (relu b2)"
    and n: "reset_running_stats (bn b1) = reset_running_stats (bn b2)"
    by (cases m2) simp_all
  have "out_tensor (DeconvBlock_forward True b1 x) = out_tensor (DeconvBlock_forward True b2 x)"
    unfolding out_tensor_DeconvBlock
    by (simp add: layer_forward_train_out [OF c] layer_forward_train_out [OF r]
        layer_forward_train_out [OF n])
  with Deconv m2 show ?thesis by (simp add: out_tensor_bind)
next
  case (Sequential ls1)
  with assms obtain ls2 where m2: "m2 = Sequential ls2"
    and e: "map reset_running_stats ls1 = map reset_running_stats ls2"
    by (cases m2) simp_all
  from Sequential_forward_out_cong [of reset_running_stats "layer_forward True", OF layer_forward_train_out e]
  show ?thesis using Sequential m2 by (simp add: out_tensor_bind)
qed

subsection \<open>A pipeline\<close>

lemma pipeline_reset:
  "Sequential_forward (module_forward tr) ms x = Inr (y, ms') \<Longrightarrow> map reset_module ms' = map reset_module ms"
  by (rule Sequential_forward_preserves [of "module_forward tr" reset_module, OF module_forward_reset])

lemma pipeline_eval:
  assumes "Sequential_forward (module_forward False) ms x = Inr (y, ms')"
  shows "ms' = ms"
  using Sequential_forward_preserves [of "module_forward False" "\<lambda>m. m", OF module_forward_eval assms]
  by simp

lemma pipeline_counts_Suc:
  "Sequential_forward (module_forward True) ms x = Inr (y, ms') \<Longrightarrow>
     pipeline_counts ms' = map Suc (pipeline_counts ms)"
  unfolding pipeline_counts_def
  by (rule Sequential_forward_counts [of "module_forward True" module_counts, OF module_forward_counts])

lemma pipeline_train_out:
  "map reset_module ms1 = map reset_module ms2 \<Longrightarrow>
     out_tensor (Sequential_forward (module_forward True) ms1 x)
       = out_tensor (Sequential_forward (module_forward True) ms2 x)"
  by (rule Sequential_forward_out_cong [of reset_module "module_forward True", OF module_forward_train_out])

lemma pipeline_again:
  assumes "Sequential_forward (module_forward tr) ms x = Inr (y, ms')"
  shows "out_tensor (Sequential_forward (module_forward tr) ms' x) = Inr y"
proof (cases tr)
  case True
  from pipeline_train_out [OF pipeline_reset [OF assms], of x] assms True show ?thesis by simp
next
  case False
  with assms pipeline_eval [of ms x y ms'] show ?thesis by simp
qed

subsection \<open>The two networks\<close>

lemma Generator_forward_InrD:
  assumes "Generator_forward g x = Inr (y, g')"
  shows "\<exists>ms. Sequential_forward (module_forward (Generator.training g))
             (if Generator.im_size g = 64 then Generator.main64 g else Generator.main128 g) x = Inr (y, ms)
           \<and> g' = (if Generator.im_size g = 64 then g\<lparr>Generator.main64 := ms\<rparr>
                    else g\<lparr>Generator.main128 := ms\<rparr>)"
  using assms unfolding Generator_forward_def
  by (auto dest: bind_wrap_InrD split: if_splits)

lemma Generator_forward_effect:
  assumes "Generator_forward g x = Inr (y, g')"
  shows "(\<exists>g''. Generator_forward g' x = Inr (y, g''))
       \<and> Generator.ngpu g' = Generator.ngpu g
       \<and> Generator.im_size g' = Generator.im_size g
       \<and> Generator.training g' = Generator.training g
       \<and> map reset_module (Generator.main64 g') = map reset_module (Generator.main64 g)
       \<and> map reset_module (Generator.main128 g') = map reset_module (Generator.main128 g)
       \<and> (\<not> Generator.training g \<longrightarrow> g' = g)
       \<and> (Generator.training g \<longrightarrow>
            pipeline_counts (if Generator.im_size g = 64 then Generator.main64 g' else Generator.main128 g')
              = map Suc (pipeline_counts
                  (if Generator.im_size g = 64 then Generator.main64 g else Generator.main128 g)))"
proof -
  let ?tr = "Generator.training g"
  let ?sel = "if Generator.im_size g = 64 then Generator.main64 g else Generator.main128 g"
  from Generator_forward_InrD [OF assms] obtain ms where
    run: "Sequential_forward (module_forward ?tr) ?sel x = Inr (y, ms)"
    and g': "g' = (if Generator.im_size g = 64 then g\<lparr>Generator.main64 := ms\<rparr>
                    else g\<lparr>Generator.main128 := ms\<rparr>)"
    by blast
  have sel': "(if Generator.im_size g' = 64 then Generator.main64 g' else Generator.main128 g') = ms"
    and fr: "Generator.ngpu g' = Generator.ngpu g" "Generator.im_size g' = Generator.im_size g"
      "Generator.training g' = ?tr"
    unfolding g' by simp_all
  from pipeline_again [OF run] obtain ms2 where
    again: "Sequential_forward (module_forward ?tr) ms x = Inr (y, ms2)"
    by (auto dest: out_tensor_InrD)
  have rep: "\<exists>g''. Generator_forward g' x = Inr (y, g'')"
  proof (cases "Generator.im_size g = 64")
    case True
    with again show ?thesis unfolding g' by (simp add: Generator_forward_def)
  next
    case False
    with again show ?thesis unfolding g' by (simp add: Generator_forward_def)
  qed
  have rs: "map reset_module ms = map reset_module ?sel"
    by (rule pipeline_reset [OF run])
  have r64: "map reset_module (Generator.main64 g') = map reset_module (Generator.main64 g)"
    and r128: "map reset_module (Generator.main128 g') = map reset_module (Generator.main128 g)"
    using rs unfolding g' by (simp_all split: if_splits)
  have ev: "g' = g" if "\<not> ?tr"
  proof -
    from that run have "ms = ?sel" by (simp add: pipeline_eval)
    then show ?thesis unfolding g' by (simp split: if_splits)
  qed
  have cnt: "pipeline_counts (if Generator.im_size g = 64 then Generator.main64 g' else Generator.main128 g')
              = map Suc (pipeline_counts ?sel)" if "?tr"
  proof -
    from that run have "pipeline_counts ms = map Suc (pipeline_counts ?sel)"
      by (simp add: pipeline_counts_Suc)
    then show ?thesis unfolding g' by (simp split: if_splits)
  qed
  from rep fr r64 r128 ev cnt show ?thesis by blast
qed

lemma Discriminator_forward_InrD:
  assumes "Discriminator_forward d x = Inr (r, d')"
  shows "\<exists>y ms. Sequential_forward (module_forward (Discriminator.training d))
             (if Discriminator.im_size d = 64 then Discriminator.main64 d else Discriminator.main128 d) x
               = Inr (y, ms)
           \<and> view1 (mean0 y) = Inr r
           \<and> d' = (if Discriminator.im_size d = 64 then d\<lparr>Discriminator.main64 := ms\<rparr>
                    else d\<lparr>Discriminator.main128 := ms\<rparr>)"
proof -
  let ?run = "Sequential_forward (module_forward (Discriminator.training d))
             (if Discriminator.im_size d = 64 then Discriminator.main64 d else Discriminator.main128 d) x"
  show ?thesis
  proof (cases ?run)
    case (Inl e)
    with assms show ?thesis
      by (simp add: Discriminator_forward_def split: if_splits)
  next
    case (Inr q)
    obtain y ms where q: "q = (y, ms)" by (cases q)
    show ?thesis
    proof (cases "view1 (mean0 y)")
      case (Inl e)
      with assms Inr q show ?thesis
        by (simp add: Discriminator_forward_def split: if_splits)
    next
      case v: (Inr r')
      with assms Inr q show ?thesis
        by (simp add: Discriminator_forward_def split: if_splits)
    qed
  qed
qed

lemma Discriminator_forward_effect:
  assumes "Discriminator_forward d x = Inr (r, d')"
  shows "(\<exists>d''. Discriminator_forward d' x = Inr (r, d''))
       \<and> Discriminator.ngpu d' = Discriminator.ngpu d
       \<and> Discriminator.im_size d' = Discriminator.im_size d
       \<and> Discriminator.training d' = Discriminator.training d
       \<and> map reset_module (Discriminator.main64 d') = map reset_module (Discriminator.main64 d)
       \<and> map reset_module (Discriminator.main128 d') = map reset_module (Discriminator.main128 d)
       \<and> (\<not> Discriminator.training d \<longrightarrow> d' = d)
       \<and> (Discriminator.training d \<longrightarrow>
            pipeline_counts (if Discriminator.im_size d = 64 then Discriminator.main64 d'
                             else Discriminator.main128 d')
              = map Suc (pipeline_counts
                  (if Discriminator.im_size d = 64 then Discriminator.main64 d
                   else Discriminator.main128 d)))"
proof -
  let ?tr = "Discriminator.training d"
  let ?sel = "if Discriminator.im_size d = 64 then Discriminator.main64 d else Discriminator.main128 d"
  from Discriminator_forward_InrD [OF assms] obtain y ms where
    run: "Sequential_forward (module_forward ?tr) ?sel x = Inr (y, ms)"
    and v: "view1 (mean0 y) = Inr r"
    and d': "d' = (if Discriminator.im_size d = 64 then d\<lparr>Discriminator.main64 := ms\<rparr>
                    else d\<lparr>Discriminator.main128 := ms\<rparr>)"
    by blast
  have fr: "Discriminator.ngpu d' = Discriminator.ngpu d"
      "Discriminator.im_size d' = Discriminator.im_size d"
      "Discriminator.training d' = ?tr"
    unfolding d' by simp_all
  from pipeline_again [OF run] obtain ms2 where
    again: "Sequential_forward (module_forward ?tr) ms x = Inr (y, ms2)"
    by (auto dest: out_tensor_InrD)
  have rep: "\<exists>d''. Discriminator_forward d' x = Inr (r, d'')"
  proof (cases "Discriminator.im_size d = 64")
    case True
    with again v show ?thesis unfolding d' by (simp add: Discriminator_forward_def)
  next
    case False
    with again v show ?thesis unfolding d' by (simp add: Discriminator_forward_def)
  qed
  have rs: "map reset_module ms = map reset_module ?sel"
    by (rule pipeline_reset [OF run])
  have r64: "map reset_module (Discriminator.main64 d') = map reset_module (Discriminator.main64 d)"
    and r128: "map reset_module (Discriminator.main128 d') = map reset_module (Discriminator.main128 d)"
    using rs unfolding d' by (simp_all split: if_splits)
  have ev: "d' = d" if "\<not> ?tr"
  proof -
    from that run have "ms = ?sel" by (simp add: pipeline_eval)
    then show ?thesis unfolding d' by (simp split: if_splits)
  qed
  have cnt: "pipeline_counts (if Discriminator.im_size d = 64 then Discriminator.main64 d'
                             else Discriminator.main128 d')
              = map Suc (pipeline_counts ?sel)" if "?tr"
  proof -
    from that run have "pipeline_counts ms = map Suc (pipeline_counts ?sel)"
      by (simp add: pipeline_counts_Suc)
    then show ?thesis unfolding d' by (simp split: if_splits)
  qed
  from rep fr r64 r128 ev cnt show ?thesis by blast
qed

lemma Generator_sample_run:
  "\<exists>y g'. Generator_forward (Generator_init 64 4 100 64 3 1 sample_Wt sample_Bn) (ones [2, 100, 1, 1])
      = Inr (y, g')"
proof -
  have s: "shape (ones [2, 100, 1, 1]) = [2, 100, 1, 1]"
    by (simp add: ones_def)
  have t: "Generator.training (Generator_init 64 4 100 64 3 1 sample_Wt sample_Bn) = True"
    "Generator.im_size (Generator_init 64 4 100 64 3 1 sample_Wt sample_Bn) = 64"
    by (simp_all add: Generator_init_def)
  have "out_shape (Generator_forward (Generator_init 64 4 100 64 3 1 sample_Wt sample_Bn) (ones [2, 100, 1, 1]))
      = Inr [2, 3, 64, 64]"
    unfolding Generator_forward_shape s t
    using Generator_main64_shape [of 100 64 3 True 64 1 sample_Wt sample_Bn 2]
    by (simp only: if_True refl simp_thms zero_less_numeral)
  then show ?thesis by (auto dest: out_shape_InrD)
qed

lemma Discriminator_sample_run:
  assumes "Discriminator_init 64 4 64 3 1 sample_Wt sample_Bn = Inr d"
  shows "\<exists>r d'. Discriminator_forward d (ones [2, 3, 64, 64]) = Inr (r, d')"
proof -
  have s: "shape (ones [2, 3, 64, 64]) = [2, 3, 64, 64]"
    by (simp add: ones_def)
  have t: "Discriminator.training d = True" "Discriminator.im_size d = 64"
    using assms unfolding Discriminator_init_Inr by auto
  have "out_shape (Sequential_forward (module_forward True) (Discriminator.main64 d) (ones [2, 3, 64, 64]))
      = Inr [2, 1, 1, 1]"
    unfolding pipeline_forward_shape s
    by (rule Discriminator_main64_shape [OF _ _ assms]) simp_all
  then obtain y ms where run: "Sequential_forward (module_forward True) (Discriminator.main64 d) (ones [2, 3, 64, 64])
      = Inr (y, ms)" and sh: "shape y = [2, 1, 1, 1]"
    by (auto dest: out_shape_InrD)
  from sh obtain r where "view1 (mean0 y) = Inr r"
    by (simp add: view1_def mean0_def)
  with run t show ?thesis
    by (simp add: Discriminator_forward_def)
qed

text \<open>
  C8 (as amended), about a forward call of a generator or of a discriminator that returns;
  what a call that raises leaves behind is not stated. A call that returns can be repeated
  on the module it leaves behind and returns the same tensor. Such a call changes neither
  \<open>ngpu\<close>, \<open>im_size\<close> nor the mode, and nothing in the two pipelines but the running
  statistics and batch counters of the normalization layers. In evaluation mode it leaves
  the whole module as it was. In training mode, which is the mode after construction,
  every normalization layer of the selected pipeline has counted one more batch when the
  call returns.
\<close>

theorem forward_effect:
  assumes "Generator_forward g z = Inr (y, g')" and "Discriminator_forward d x = Inr (r, d')"
  shows "((\<exists>g''. Generator_forward g' z = Inr (y, g''))
       \<and> Generator.ngpu g' = Generator.ngpu g
       \<and> Generator.im_size g' = Generator.im_size g
       \<and> Generator.training g' = Generator.training g
       \<and> map reset_module (Generator.main64 g') = map reset_module (Generator.main64 g)
       \<and> map reset_module (Generator.main128 g') = map reset_module (Generator.main128 g)
       \<and> (\<not> Generator.training g \<longrightarrow> g' = g)
       \<and> (Generator.training g \<longrightarrow>
            pipeline_counts (if Generator.im_size g = 64 then Generator.main64 g' else Generator.main128 g')
              = map Suc (pipeline_counts
                  (if Generator.im_size g = 64 then Generator.main64 g else Generator.main128 g))))
    \<and> ((\<exists>d''. Discriminator_forward d' x = Inr (r, d''))
       \<and> Discriminator.ngpu d' = Discriminator.ngpu d
       \<and> Discriminator.im_size d' = Discriminator.im_size d
       \<and> Discriminator.training d' = Discriminator.training d
       \<and> map reset_module (Discriminator.main64 d') = map reset_module (Discriminator.main64 d)
       \<and> map reset_module (Discriminator.main128 d') = map reset_module (Discriminator.main128 d)
       \<and> (\<not> Discriminator.training d \<longrightarrow> d' = d)
       \<and> (Discriminator.training d \<longrightarrow>
            pipeline_counts (if Discriminator.im_size d = 64 then Discriminator.main64 d'
                             else Discriminator.main128 d')
              = map Suc (pipeline_counts
                  (if Discriminator.im_size d = 64 then Discriminator.main64 d
                   else Discriminator.main128 d))))"
  using Generator_forward_effect [OF assms(1)] Discriminator_forward_effect [OF assms(2)]
  by (rule conjI)

theorem forward_effect_witness:
  "\<exists>y g' d r d'.
      Generator_forward (Generator_init 64 4 100 64 3 1 sample_Wt sample_Bn) (ones [2, 100, 1, 1]) = Inr (y, g')
    \<and> Discriminator_init 64 4 64 3 1 sample_Wt sample_Bn = Inr d
    \<and> Discriminator_forward d (ones [2, 3, 64, 64]) = Inr (r, d')
    \<and> (\<exists>g''. Generator_forward g' (ones [2, 100, 1, 1]) = Inr (y, g''))
    \<and> (\<exists>d''. Discriminator_forward d' (ones [2, 3, 64, 64]) = Inr (r, d''))
    \<and> pipeline_counts (Generator.main64 g') = [1, 1, 1, 1]
    \<and> pipeline_counts (Discriminator.main64 d') = [1, 1, 1]"
proof -
  let ?g = "Generator_init 64 4 100 64 3 1 sample_Wt sample_Bn"
  obtain y g' where a: "Generator_forward ?g (ones [2, 100, 1, 1]) = Inr (y, g')"
    using Generator_sample_run by blast
  obtain d where d: "Discriminator_init 64 4 64 3 1 sample_Wt sample_Bn = Inr d"
    unfolding Discriminator_init_Inr by blast
  obtain r d' where b: "Discriminator_forward d (ones [2, 3, 64, 64]) = Inr (r, d')"
    using Discriminator_sample_run [OF d] by blast
  have g0: "Generator.training ?g" "Generator.im_size ?g = 64"
    "pipeline_counts (Generator.main64 ?g) = [0, 0, 0, 0]"
    by (simp_all add: Generator_init_def DeconvBlock_init_def pipeline_counts_def sample_Bn_def bn_fresh_def)
  have d0: "Discriminator.training d" "Discriminator.im_size d = 64"
    "pipeline_counts (Discriminator.main64 d) = [0, 0, 0]"
    using d unfolding Discriminator_init_Inr
    by (auto simp: pipeline_counts_def sample_Bn_def bn_fresh_def)
  from forward_effect [OF a b] g0 d0
  have "(\<exists>g''. Generator_forward g' (ones [2, 100, 1, 1]) = Inr (y, g''))
    \<and> (\<exists>d''. Discriminator_forward d' (ones [2, 3, 64, 64]) = Inr (r, d''))
    \<and> pipeline_counts (Generator.main64 g') = [1, 1, 1, 1]
    \<and> pipeline_counts (Discriminator.main64 d') = [1, 1, 1]"
    by simp
  with a d b show ?thesis by blast
qed

text \<open>
  A generator as constructed, applied once: the four normalization layers of its pipeline
  for resolution 64 held the count 0 before the call and hold 1 after it.
\<close>

theorem forward_counts_batches_counterexample:
  "map_sum id (\<lambda>(y, g'). pipeline_counts (Generator.main64 g'))
     (Generator_forward (Generator_init 64 4 100 64 3 1 sample_Wt sample_Bn) (ones [2, 100, 1, 1]))
     = Inr [1, 1, 1, 1]
   \<and> pipeline_counts (Generator.main64 (Generator_init 64 4 100 64 3 1 sample_Wt sample_Bn)) = [0, 0, 0, 0]"
proof -
  let ?g = "Generator_init 64 4 100 64 3 1 sample_Wt sample_Bn"
  obtain y g' where a: "Generator_forward ?g (ones [2, 100, 1, 1]) = Inr (y, g')"
    using Generator_sample_run by blast
  have g0: "Generator.training ?g" "Generator.im_size ?g = 64"
    "pipeline_counts (Generator.main64 ?g) = [0, 0, 0, 0]"
    by (simp_all add: Generator_init_def DeconvBlock_init_def pipeline_counts_def sample_Bn_def bn_fresh_def)
  from Generator_forward_effect [OF a] g0
  have "pipeline_counts (Generator.main64 g') = [1, 1, 1, 1]" by simp
  with a g0(3) show ?thesis by simp
qed

section \<open>What selects the pipeline, and what does not\<close>

lemma out_tensor_Generator_forward:
  "out_tensor (Generator_forward g z)
     = out_tensor (Sequential_forward (module_forward (Generator.training g))
         (if Generator.im_size g = 64 then Generator.main64 g else Generator.main128 g) z)"
  by (simp add: Generator_forward_def out_tensor_bind)

lemma out_tensor_Discriminator_forward:
  "out_tensor (Discriminator_forward d x)
     = bind (out_tensor (Sequential_forward (module_forward (Discriminator.training d))
         (if Discriminator.im_size d = 64 then Discriminator.main64 d else Discriminator.main128 d) x))
         (\<lambda>y. view1 (mean0 y))"
proof -
  have "out_tensor (bind (view1 (mean0 y)) (\<lambda>r. Inr (r, e))) = view1 (mean0 y)" for y and e :: Discriminator
    by (cases "view1 (mean0 y)") simp_all
  then show ?thesis
    by (simp add: Discriminator_forward_def out_tensor_bind2)
qed

text \<open>
  C9: \<open>ngpu\<close> has no effect on the tensor a forward call returns. Two generators,
  or two discriminators, constructed from the same arguments but for \<open>ngpu\<close> return
  the same tensor (or raise the same exception) on every input, and so does any instance
  after its \<open>ngpu\<close> has been changed.
\<close>

theorem ngpu_unused:
  "out_tensor (Generator_forward (Generator_train mode (Generator_init im ks nz ngf nc gpus Wt Bn)) z)
     = out_tensor (Generator_forward (Generator_train mode (Generator_init im ks nz ngf nc gpus' Wt Bn)) z)
   \<and> out_tensor (bind (Discriminator_init im ks ndf nc gpus Wt Bn)
        (\<lambda>d. Discriminator_forward (Discriminator_train mode d) x))
     = out_tensor (bind (Discriminator_init im ks ndf nc gpus' Wt Bn)
        (\<lambda>d. Discriminator_forward (Discriminator_train mode d) x))
   \<and> out_tensor (Generator_forward (g\<lparr>Generator.ngpu := k\<rparr>) z) = out_tensor (Generator_forward g z)
   \<and> out_tensor (Discriminator_forward (d\<lparr>Discriminator.ngpu := k\<rparr>) x)
     = out_tensor (Discriminator_forward d x)"
proof (intro conjI)
  show "out_tensor (Generator_forward (Generator_train mode (Generator_init im ks nz ngf nc gpus Wt Bn)) z)
     = out_tensor (Generator_forward (Generator_train mode (Generator_init im ks nz ngf nc gpus' Wt Bn)) z)"
    unfolding out_tensor_Generator_forward
    by (simp add: Generator_train_def Generator_init_def)
  show "out_tensor (bind (Discriminator_init im ks ndf nc gpus Wt Bn)
        (\<lambda>d. Discriminator_forward (Discriminator_train mode d) x))
     = out_tensor (bind (Discriminator_init im ks ndf nc gpus' Wt Bn)
        (\<lambda>d. Discriminator_forward (Discriminator_train mode d) x))"
    unfolding Discriminator_init_Inr bind_Inr out_tensor_Discriminator_forward
    by (simp add: Discriminator_train_def)
  show "out_tensor (Generator_forward (g\<lparr>Generator.ngpu := k\<rparr>) z) = out_tensor (Generator_forward g z)"
    unfolding out_tensor_Generator_forward by simp
  show "out_tensor (Discriminator_forward (d\<lparr>Discriminator.ngpu := k\<rparr>) x)
     = out_tensor (Discriminator_forward d x)"
    unfolding out_tensor_Discriminator_forward by simp
qed

text \<open>
  C10: a generator or discriminator constructed with an \<open>im_size\<close> other than 64
  returns what the one constructed with 128 returns; the constructors accept and store
  every \<open>im_size\<close>; and a forward call runs \<open>main64\<close> when the stored \<open>im_size\<close>
  is 64 and \<open>main128\<close> otherwise.
\<close>

theorem im_size_selection:
  "(im \<noteq> 64 \<longrightarrow>
      out_tensor (Generator_forward (Generator_train mode (Generator_init im ks nz ngf nc gpus Wt Bn)) z)
        = out_tensor (Generator_forward (Generator_train mode (Generator_init 128 ks nz ngf nc gpus Wt Bn)) z))
   \<and> (im \<noteq> 64 \<longrightarrow>
      out_tensor (bind (Discriminator_init im ks ndf nc gpus Wt Bn)
          (\<lambda>d. Discriminator_forward (Discriminator_train mode d) x))
        = out_tensor (bind (Discriminator_init 128 ks ndf nc gpus Wt Bn)
          (\<lambda>d. Discriminator_forward (Discriminator_train mode d) x)))
   \<and> Generator.im_size (Generator_init im ks nz ngf nc gpus Wt Bn) = im
   \<and> (\<exists>d. Discriminator_init im ks ndf nc gpus Wt Bn = Inr d \<and> Discriminator.im_size d = im)
   \<and> out_tensor (Generator_forward g z)
        = out_tensor (Sequential_forward (module_forward (Generator.training g))
            (if Generator.im_size g = 64 then Generator.main64 g else Generator.main128 g) z)
   \<and> out_tensor (Discriminator_forward d' x)
        = bind (out_tensor (Sequential_forward (module_forward (Discriminator.training d'))
            (if Discriminator.im_size d' = 64 then Discriminator.main64 d' else Discriminator.main128 d') x))
            (\<lambda>y. view1 (mean0 y))"
proof (intro conjI impI)
  assume "im \<noteq> 64"
  then show "out_tensor (Generator_forward (Generator_train mode (Generator_init im ks nz ngf nc gpus Wt Bn)) z)
        = out_tensor (Generator_forward (Generator_train mode (Generator_init 128 ks nz ngf nc gpus Wt Bn)) z)"
    unfolding out_tensor_Generator_forward
    by (simp add: Generator_train_def Generator_init_def)
next
  assume "im \<noteq> 64"
  then show "out_tensor (bind (Discriminator_init im ks ndf nc gpus Wt Bn)
          (\<lambda>d. Discriminator_forward (Discriminator_train mode d) x))
        = out_tensor (bind (Discriminator_init 128 ks ndf nc gpus Wt Bn)
          (\<lambda>d. Discriminator_forward (Discriminator_train mode d) x))"
    unfolding Discriminator_init_Inr bind_Inr out_tensor_Discriminator_forward
    by (simp add: Discriminator_train_def)
next
  show "Generator.im_size (Generator_init im ks nz ngf nc gpus Wt Bn) = im"
    by (simp add: Generator_init_def)
  show "\<exists>d. Discriminator_init im ks ndf nc gpus Wt Bn = Inr d \<and> Discriminator.im_size d = im"
    unfolding Discriminator_init_Inr by simp
  show "out_tensor (Generator_forward g z)
        = out_tensor (Sequential_forward (module_forward (Generator.training g))
            (if Generator.im_size g = 64 then Generator.main64 g else Generator.main128 g) z)"
    by (rule out_tensor_Generator_forward)
  show "out_tensor (Discriminator_forward d' x)
        = bind (out_tensor (Sequential_forward (module_forward (Discriminator.training d'))
            (if Discriminator.im_size d' = 64 then Discriminator.main64 d' else Discriminator.main128 d') x))
            (\<lambda>y. view1 (mean0 y))"
    by (rule out_tensor_Discriminator_forward)
qed


theorem im_size_selection_witness:
  "out_tensor (Generator_forward (Generator_train True (Generator_init 32 4 100 64 3 1 sample_Wt sample_Bn))
       (ones [2, 100, 1, 1]))
     = out_tensor (Generator_forward (Generator_train True (Generator_init 128 4 100 64 3 1 sample_Wt sample_Bn))
       (ones [2, 100, 1, 1]))
   \<and> out_tensor (bind (Discriminator_init 32 4 64 3 1 sample_Wt sample_Bn)
          (\<lambda>d. Discriminator_forward (Discriminator_train True d) (ones [2, 3, 128, 128])))
     = out_tensor (bind (Discriminator_init 128 4 64 3 1 sample_Wt sample_Bn)
          (\<lambda>d. Discriminator_forward (Discriminator_train True d) (ones [2, 3, 128, 128])))
   \<and> out_shape (Generator_forward (Generator_init 32 4 100 64 3 1 sample_Wt sample_Bn) (ones [2, 100, 1, 1]))
     = Inr [2, 3, 128, 128]"
proof -
  have s: "shape (ones [2, 100, 1, 1]) = [2, 100, 1, 1]"
    by (simp add: ones_def)
  have t: "Generator.training (Generator_init 32 4 100 64 3 1 sample_Wt sample_Bn) = True"
    "Generator.im_size (Generator_init 32 4 100 64 3 1 sample_Wt sample_Bn) = 32"
    by (simp_all add: Generator_init_def)
  have sh: "out_shape (Generator_forward (Generator_init 32 4 100 64 3 1 sample_Wt sample_Bn) (ones [2, 100, 1, 1]))
      = Inr [2, 3, 128, 128]"
    unfolding Generator_forward_shape s t
    using Generator_main128_shape [of 100 64 3 True 32 1 sample_Wt sample_Bn 2]
    by simp
  note sel = im_size_selection [where im = 32 and mode = True and ks = 4 and nz = 100 and ngf = 64
      and ndf = 64 and nc = 3 and gpus = 1 and Wt = sample_Wt and Bn = sample_Bn
      and z = "ones [2, 100, 1, 1]" and x = "ones [2, 3, 128, 128]"]
  have n: "(32::int) \<noteq> 64"
    by simp
  from sel [THEN conjunct1, rule_format, OF n] sel [THEN conjunct2, THEN conjunct1, rule_format, OF n] sh
  show ?thesis by (intro conjI)
qed

end
